theory Spec2Isabelle
  imports Main "HOL-Library.AList" "HOL-Library.Multiset" "HOL-Library.Char_ord"
    "HOL-Library.List_Lexorder"
begin

section \<open>JavaScript values, errors and the platform\<close>

text \<open>
  The encryption service (\<^verbatim>\<open>services/encryption.ts\<close>) is a thin layer over three
  libraries: Node's \<^verbatim>\<open>crypto\<close>, \<^verbatim>\<open>elliptic\<close> and \<^verbatim>\<open>js-sha3\<close>, plus the built-in
  \<^verbatim>\<open>JSON\<close> object. Their code is not part of the repository, so every function
  of the service takes the libraries as a parameter, the record \<open>platform\<close> below,
  and what a theorem needs of them is a hypothesis of that theorem.

  A JavaScript string is modelled by the list of its UTF-8 bytes and a \<^verbatim>\<open>Buffer\<close>
  by the list of its bytes, so both are \<open>char list\<close> (an Isabelle \<open>char\<close> is one
  byte). The strings the service compares, sorts and cuts are hex digests and
  other ASCII texts, where the order of bytes is the order
  \<^verbatim>\<open>Array.prototype.sort\<close> uses and \<^verbatim>\<open>substring\<close> counts bytes.

  An object is given by the association list of its own properties. The
  field maps of the disclosure tree take their property names from callers,
  and the section on the tree models their reads and writes along the
  prototype chain. The keys of the map \<^verbatim>\<open>encryptedKeys\<close> of an envelope are
  fingerprints, 40 hex digits of a digest of js-sha3, which are not names of
  \<^verbatim>\<open>Object.prototype\<close>; there \<^verbatim>\<open>obj[k]\<close> is \<open>map_of obj k\<close> and
  \<^verbatim>\<open>obj[k] = v\<close> is \<open>AList.update k v\<close>. The random source is a state \<open>'rng\<close>
  that every function drawing from it takes and returns.
\<close>

type_synonym buffer = "char list"

datatype jsval =
    JUndefined
  | JNull
  | JBool bool
  | JNum int
  | JStr string
  | JArr "jsval list"
  | JObj "(string \<times> jsval) list"

text \<open>
  A thrown \<^verbatim>\<open>Error\<close> object, with its \<^verbatim>\<open>message\<close>: what the libraries and the
  language throw (\<^verbatim>\<open>TypeError\<close>, \<^verbatim>\<open>SyntaxError\<close>, the errors of \<^verbatim>\<open>crypto\<close> and of
  elliptic's assertions) are all such objects. A call that may throw returns
  \<open>js_error + 'a\<close>, and \<open>and_then\<close> runs the rest of a function body after it.
\<close>

datatype js_error = Error (error_message: string)

definition and_then :: "js_error + 'a \<Rightarrow> ('a \<Rightarrow> js_error + 'b) \<Rightarrow> js_error + 'b" where
  "and_then m f = (case m of Inl e \<Rightarrow> Inl e | Inr x \<Rightarrow> f x)"

text \<open>
  The libraries. \<open>'kp\<close> is elliptic's \<^verbatim>\<open>KeyPair\<close> object, \<open>'pt\<close> a curve point
  and \<open>'rng\<close> the state of the operating system's random source.
  \<^item> \<open>randomBytes n\<close>: \<^verbatim>\<open>crypto.randomBytes(n)\<close>;
  \<^item> \<open>keccak256\<close>: js-sha3's \<^verbatim>\<open>keccak256\<close> of a string or a Buffer, a hex digest;
  \<^item> \<open>sha256\<close>: \<^verbatim>\<open>crypto.createHash('sha256').update(b).digest()\<close>;
  \<^item> \<open>gcm_encrypt key iv data\<close>: \<^verbatim>\<open>createCipheriv('aes-256-gcm', key, iv)\<close>, then
    \<^verbatim>\<open>update(data, 'utf8', 'hex') + final('hex')\<close> and \<^verbatim>\<open>getAuthTag()\<close>;
  \<^item> \<open>gcm_decrypt key iv tag ciphertext\<close>: \<^verbatim>\<open>createDecipheriv\<close>, \<^verbatim>\<open>setAuthTag\<close>,
    then \<^verbatim>\<open>update(ciphertext, 'hex', 'utf8') + final('utf8')\<close>;
  \<^item> \<open>ec_genKeyPair\<close>, \<open>ec_keyFromPrivate\<close>, \<open>ec_keyFromPublic\<close>: the methods of
    \<^verbatim>\<open>new EC('secp256k1')\<close>, keys given in hex;
  \<^item> \<open>kp_getPrivate_hex\<close>, \<open>kp_getPublic_hex\<close>, \<open>kp_getPublic\<close>: \<^verbatim>\<open>getPrivate('hex')\<close>,
    \<^verbatim>\<open>getPublic('hex')\<close>, \<^verbatim>\<open>getPublic()\<close> of a KeyPair;
  \<^item> \<open>kp_derive k p\<close>: \<^verbatim>\<open>Buffer.from(k.derive(p).toArray())\<close>;
  \<^item> \<open>kp_sign k h\<close>: \<^verbatim>\<open>k.sign(h).toDER('hex')\<close>; \<open>kp_verify k h s\<close>: \<^verbatim>\<open>k.verify(h, s)\<close>;
  \<^item> \<open>JSON_stringify\<close>, \<open>JSON_parse\<close>: the built-ins, on values other than
    \<^verbatim>\<open>undefined\<close>;
  \<^item> \<open>unwrap_untyped v priv\<close>: what the body of \<^verbatim>\<open>decryptDEKWithPrivateKey\<close> does
    when the parsed wrapped key \<open>v\<close> is not an object of four strings (the
    libraries are then handed values of other types: they throw or return).
\<close>

record ('kp, 'pt, 'rng) platform =
  randomBytes :: "nat \<Rightarrow> 'rng \<Rightarrow> buffer \<times> 'rng"
  keccak256 :: "string \<Rightarrow> string"
  sha256 :: "buffer \<Rightarrow> buffer"
  gcm_encrypt :: "buffer \<Rightarrow> buffer \<Rightarrow> string \<Rightarrow> js_error + (string \<times> buffer)"
  gcm_decrypt :: "buffer \<Rightarrow> buffer \<Rightarrow> buffer \<Rightarrow> string \<Rightarrow> js_error + string"
  ec_genKeyPair :: "'rng \<Rightarrow> 'kp \<times> 'rng"
  ec_keyFromPrivate :: "string \<Rightarrow> js_error + 'kp"
  ec_keyFromPublic :: "string \<Rightarrow> js_error + 'kp"
  kp_getPrivate_hex :: "'kp \<Rightarrow> string"
  kp_getPublic_hex :: "'kp \<Rightarrow> js_error + string"
  kp_getPublic :: "'kp \<Rightarrow> js_error + 'pt"
  kp_derive :: "'kp \<Rightarrow> 'pt \<Rightarrow> js_error + buffer"
  kp_sign :: "'kp \<Rightarrow> string \<Rightarrow> js_error + string"
  kp_verify :: "'kp \<Rightarrow> string \<Rightarrow> string \<Rightarrow> js_error + bool"
  JSON_stringify :: "jsval \<Rightarrow> string"
  JSON_parse :: "string \<Rightarrow> js_error + jsval"
  unwrap_untyped :: "jsval \<Rightarrow> string \<Rightarrow> js_error + buffer"

text \<open>
  \<^verbatim>\<open>JSON.stringify(undefined)\<close> is \<^verbatim>\<open>undefined\<close>, not a string; a template
  literal and \<^verbatim>\<open>+\<close> turn that into the text \<^verbatim>\<open>undefined\<close>.
\<close>

definition stringify :: "('kp, 'pt, 'rng) platform \<Rightarrow> jsval \<Rightarrow> string option" where
  "stringify env v = (if v = JUndefined then None else Some (JSON_stringify env v))"

definition String_of :: "string option \<Rightarrow> string" where
  "String_of s = (case s of None \<Rightarrow> ''undefined'' | Some t \<Rightarrow> t)"

subsection \<open>Hex encoding of Buffers\<close>

text \<open>
  \<^verbatim>\<open>buf.toString('hex')\<close> writes two lower-case digits per byte.
  \<^verbatim>\<open>Buffer.from(s, 'hex')\<close> reads pairs of hex digits of either case and stops
  at the first pair that is not one (or at a single last character).
\<close>

definition hex_digit :: "nat \<Rightarrow> char" where
  "hex_digit n = ''0123456789abcdef'' ! (n mod 16)"

definition hex_value :: "char \<Rightarrow> nat option" where
  "hex_value c = map_of
     [(CHR ''0'', 0), (CHR ''1'', 1), (CHR ''2'', 2), (CHR ''3'', 3), (CHR ''4'', 4),
      (CHR ''5'', 5), (CHR ''6'', 6), (CHR ''7'', 7), (CHR ''8'', 8), (CHR ''9'', 9),
      (CHR ''a'', 10), (CHR ''b'', 11), (CHR ''c'', 12), (CHR ''d'', 13), (CHR ''e'', 14),
      (CHR ''f'', 15), (CHR ''A'', 10), (CHR ''B'', 11), (CHR ''C'', 12), (CHR ''D'', 13),
      (CHR ''E'', 14), (CHR ''F'', 15)] c"

definition toString_hex :: "buffer \<Rightarrow> string" where
  "toString_hex b =
     concat (map (\<lambda>c. [hex_digit (of_char c div 16), hex_digit (of_char c mod 16)]) b)"

fun Buffer_from_hex :: "string \<Rightarrow> buffer" where
  "Buffer_from_hex (a # b # rest) =
     (case (hex_value a, hex_value b) of
        (Some h, Some l) \<Rightarrow> char_of (16 * h + l) # Buffer_from_hex rest
      | _ \<Rightarrow> [])"
| "Buffer_from_hex _ = []"

text \<open>The hex digit of four bits, least significant first: \<open>toString_hex\<close> without arithmetic.\<close>

definition hex_of_nibble :: "bool \<Rightarrow> bool \<Rightarrow> bool \<Rightarrow> bool \<Rightarrow> char" where
  "hex_of_nibble b0 b1 b2 b3 =
     (if b3
      then (if b2
            then (if b1 then (if b0 then CHR ''f'' else CHR ''e'')
                  else (if b0 then CHR ''d'' else CHR ''c''))
            else (if b1 then (if b0 then CHR ''b'' else CHR ''a'')
                  else (if b0 then CHR ''9'' else CHR ''8'')))
      else (if b2
            then (if b1 then (if b0 then CHR ''7'' else CHR ''6'')
                  else (if b0 then CHR ''5'' else CHR ''4''))
            else (if b1 then (if b0 then CHR ''3'' else CHR ''2'')
                  else (if b0 then CHR ''1'' else CHR ''0''))))"

section \<open>Key pairs and fingerprints\<close>

record KeyPair =
  privateKey :: string
  publicKey :: string

definition generateKeyPair ::
  "('kp, 'pt, 'rng) platform \<Rightarrow> 'rng \<Rightarrow> (js_error + KeyPair) \<times> 'rng" where
  "generateKeyPair env g =
     (let (keyPair, g') = ec_genKeyPair env g in
      (and_then (kp_getPublic_hex env keyPair) (\<lambda>pub.
         Inr \<lparr>privateKey = kp_getPrivate_hex env keyPair, publicKey = pub\<rparr>), g'))"

definition generateDEK :: "('kp, 'pt, 'rng) platform \<Rightarrow> 'rng \<Rightarrow> buffer \<times> 'rng" where
  "generateDEK env g = randomBytes env 32 g"

definition hashPublicKey :: "('kp, 'pt, 'rng) platform \<Rightarrow> string \<Rightarrow> string" where
  "hashPublicKey env pubKey = take 40 (keccak256 env (Buffer_from_hex pubKey))"

section \<open>The disclosure tree\<close>

text \<open>
  The field maps of the disclosure tree are plain objects whose property names
  come from the caller, and the service reads and writes them with
  \<^verbatim>\<open>obj[name]\<close>, which follows the prototype chain. \<^verbatim>\<open>Object.prototype\<close> has
  twelve properties: eleven functions and the accessor \<^verbatim>\<open>__proto__\<close>.

  A value read from a property is an own value (\<open>Own\<close>), the member of
  \<^verbatim>\<open>Object.prototype\<close> of that name (\<open>Inherited\<close>: one of the functions, or
  for \<^verbatim>\<open>__proto__\<close> the object \<^verbatim>\<open>Object.prototype\<close> itself, which the getter
  returns), or \<^verbatim>\<open>undefined\<close> (\<open>Absent\<close>).

  A field map is given as the list \<^verbatim>\<open>Object.entries\<close> returns for it: its own
  properties, in the order of enumeration.
\<close>

definition Object_prototype_names :: "string list" where
  "Object_prototype_names =
     [''constructor'', ''__defineGetter__'', ''__defineSetter__'', ''hasOwnProperty'',
      ''__lookupGetter__'', ''__lookupSetter__'', ''isPrototypeOf'', ''propertyIsEnumerable'',
      ''toString'', ''valueOf'', ''__proto__'', ''toLocaleString'']"

datatype 'a property = Own 'a | Inherited string | Absent

text \<open>
  \<^verbatim>\<open>obj[name]\<close> read from an object whose prototype is \<^verbatim>\<open>Object.prototype\<close>: an
  object literal, or an object \<^verbatim>\<open>JSON.parse\<close> returned (which can have an own
  property named \<^verbatim>\<open>__proto__\<close>). An own property hides an inherited one.
\<close>

definition get_property :: "(string \<times> 'a) list \<Rightarrow> string \<Rightarrow> 'a property" where
  "get_property obj name =
     (case map_of obj name of
        Some v \<Rightarrow> Own v
      | None \<Rightarrow> if name \<in> set Object_prototype_names then Inherited name else Absent)"

record MerkleTree =
  root :: string
  leaves :: "(string \<times> string) list"

definition leafHash :: "('kp, 'pt, 'rng) platform \<Rightarrow> string \<Rightarrow> jsval \<Rightarrow> string" where
  "leafHash env key val = keccak256 env (key @ '':'' @ String_of (stringify env val))"

text \<open>
  \<^verbatim>\<open>leaves[key] = leafHash\<close>. The object \<^verbatim>\<open>leaves\<close> starts as \<^verbatim>\<open>{}\<close> and is
  only written here. For the name \<^verbatim>\<open>__proto__\<close> the assignment calls the
  inherited setter, which ignores a string; for every other name it sets the
  own property, creating it after the existing ones (the functions of
  \<^verbatim>\<open>Object.prototype\<close> are writable data properties, which an assignment
  shadows).
\<close>

definition set_leaf :: "string \<Rightarrow> string \<Rightarrow> (string \<times> string) list \<Rightarrow> (string \<times> string) list" where
  "set_leaf key h lvs = (if key = ''__proto__'' then lvs else AList.update key h lvs)"

text \<open>
  The loop over \<^verbatim>\<open>Object.entries(fields)\<close>: one step stores the leaf digest under
  the field's name and pushes it on \<^verbatim>\<open>hashes\<close>.
\<close>

definition leaf_step ::
  "('kp, 'pt, 'rng) platform \<Rightarrow> (string \<times> string) list \<times> string list \<Rightarrow> string \<times> jsval
     \<Rightarrow> (string \<times> string) list \<times> string list" where
  "leaf_step env acc entry =
     (case (acc, entry) of ((lvs, hashes), (key, val)) \<Rightarrow>
        (set_leaf key (leafHash env key val) lvs, hashes @ [leafHash env key val]))"

definition buildMerkleTree ::
  "('kp, 'pt, 'rng) platform \<Rightarrow> (string \<times> jsval) list \<Rightarrow> MerkleTree" where
  "buildMerkleTree env flds =
     (case foldl (leaf_step env) ([], []) flds of (lvs, hashes) \<Rightarrow>
        if length hashes = 0 then \<lparr>root = keccak256 env '''', leaves = lvs\<rparr>
        else \<lparr>root = ''0x'' @ keccak256 env (concat (sort hashes)), leaves = lvs\<rparr>)"

text \<open>
  The object \<^verbatim>\<open>disclosedFields\<close> of \<^verbatim>\<open>generateMerkleProof\<close> starts as \<^verbatim>\<open>{}\<close>
  and is only written, by \<^verbatim>\<open>disclosedFields[fieldName] = allFields[fieldName]\<close>.
  For the name \<^verbatim>\<open>__proto__\<close> that assignment can call the inherited setter,
  which replaces the prototype when it is given an object or \<^verbatim>\<open>null\<close> and
  ignores every other value. The object is therefore kept with its prototype:
  \<^verbatim>\<open>Object.prototype\<close>, \<^verbatim>\<open>null\<close>, or an object or array that is a value of
  \<^verbatim>\<open>allFields\<close>. Its own properties are listed in the order of their creation.
\<close>

datatype prototype = Object_prototype | Null_prototype | Value_prototype jsval

record plain_object =
  own_properties :: "(string \<times> jsval property) list"
  prototype_of :: prototype

definition empty_object :: plain_object where
  "empty_object = \<lparr>own_properties = [], prototype_of = Object_prototype\<rparr>"

text \<open>
  Whether an assignment to \<^verbatim>\<open>__proto__\<close>, on an object with this prototype and
  no own property of that name, reaches the accessor of \<^verbatim>\<open>Object.prototype\<close>:
  not below \<^verbatim>\<open>null\<close>, and not when the prototype is an object with an own
  data property \<^verbatim>\<open>__proto__\<close> (\<^verbatim>\<open>JSON.parse\<close> makes such objects), which
  the assignment then shadows with an own property.
\<close>

definition reaches_proto_setter :: "prototype \<Rightarrow> bool" where
  "reaches_proto_setter p =
     (case p of
        Object_prototype \<Rightarrow> True
      | Null_prototype \<Rightarrow> False
      | Value_prototype v \<Rightarrow>
          (case v of JObj props \<Rightarrow> ''__proto__'' \<notin> fst ` set props | _ \<Rightarrow> True))"

text \<open>
  The setter of \<^verbatim>\<open>__proto__\<close>, called with \<^verbatim>\<open>allFields['__proto__']\<close>: an own
  value, or else \<^verbatim>\<open>Object.prototype\<close>, which the getter returns.
\<close>

definition proto_setter :: "(string \<times> jsval) list \<Rightarrow> prototype \<Rightarrow> prototype" where
  "proto_setter allFields p =
     (case map_of allFields ''__proto__'' of
        None \<Rightarrow> Object_prototype
      | Some w \<Rightarrow>
          (case w of
             JObj props \<Rightarrow> Value_prototype w
           | JArr xs \<Rightarrow> Value_prototype w
           | JNull \<Rightarrow> Null_prototype
           | _ \<Rightarrow> p))"

text \<open>
  \<^verbatim>\<open>disclosedFields[fieldName] = allFields[fieldName]\<close>. Every property the
  assignment can find along the prototype chain, other than the accessor, is a
  writable data property, so it sets or creates the own property.
\<close>

definition copy_property ::
  "(string \<times> jsval) list \<Rightarrow> string \<Rightarrow> plain_object \<Rightarrow> plain_object" where
  "copy_property allFields fieldName obj =
     (if fieldName = ''__proto__'' \<and> fieldName \<notin> fst ` set (own_properties obj)
         \<and> reaches_proto_setter (prototype_of obj)
      then obj\<lparr>prototype_of := proto_setter allFields (prototype_of obj)\<rparr>
      else obj\<lparr>own_properties :=
             AList.update fieldName (get_property allFields fieldName) (own_properties obj)\<rparr>)"

text \<open>
  \<^verbatim>\<open>generateMerkleProof\<close>. The first loop runs over the requested names and, for a
  name at which \<^verbatim>\<open>allFields[fieldName]\<close> is not \<^verbatim>\<open>undefined\<close>, copies that value
  and pushes \<^verbatim>\<open>leaves[fieldName]\<close>; the second pushes the digest of every leaf
  whose name was not requested.
\<close>

record MerkleProof =
  disclosedFields :: plain_object
  proofJson :: string

definition disclose_step ::
  "(string \<times> jsval) list \<Rightarrow> (string \<times> string) list
     \<Rightarrow> plain_object \<times> string property list \<Rightarrow> string
     \<Rightarrow> plain_object \<times> string property list" where
  "disclose_step allFields lvs acc fieldName =
     (case acc of (disclosed, pushed) \<Rightarrow>
        if get_property allFields fieldName \<noteq> Absent
           \<and> get_property allFields fieldName \<noteq> Own JUndefined
        then (copy_property allFields fieldName disclosed,
              pushed @ [get_property lvs fieldName])
        else acc)"

definition withheld_step ::
  "string list \<Rightarrow> string property list \<Rightarrow> string \<times> string \<Rightarrow> string property list" where
  "withheld_step disclosedFieldNames pushed entry =
     (case entry of (key, hash) \<Rightarrow>
        if key \<notin> set disclosedFieldNames then pushed @ [Own hash] else pushed)"

text \<open>
  \<^verbatim>\<open>proofHashes.sort()\<close> compares the elements as strings and keeps equal ones
  in their order; every \<^verbatim>\<open>undefined\<close> goes last. As a string a function of
  \<^verbatim>\<open>Object.prototype\<close> is its source text as Node prints it, and
  \<^verbatim>\<open>Object.prototype\<close> is \<^verbatim>\<open>[object Object]\<close>.
\<close>

definition member_text :: "string \<Rightarrow> string" where
  "member_text name =
     (if name = ''__proto__'' then ''[object Object]''
      else if name = ''constructor'' then ''function Object() { [native code] }''
      else ''function '' @ name @ ''() { [native code] }'')"

definition entry_text :: "string property \<Rightarrow> string" where
  "entry_text x = (case x of Own s \<Rightarrow> s | Inherited name \<Rightarrow> member_text name | Absent \<Rightarrow> [])"

definition sort_js :: "string property list \<Rightarrow> string property list" where
  "sort_js xs =
     sort_key entry_text (filter (\<lambda>x. x \<noteq> Absent) xs) @ filter (\<lambda>x. x = Absent) xs"

text \<open>
  What \<^verbatim>\<open>JSON.stringify\<close> is given for an element of the array: in an array it
  writes a function as it writes \<^verbatim>\<open>undefined\<close> (\<^verbatim>\<open>null\<close>), and
  \<^verbatim>\<open>Object.prototype\<close>, which has no enumerable property, as the empty object.
\<close>

definition entry_json :: "string property \<Rightarrow> jsval" where
  "entry_json x =
     (case x of
        Own s \<Rightarrow> JStr s
      | Inherited name \<Rightarrow> if name = ''__proto__'' then JObj [] else JUndefined
      | Absent \<Rightarrow> JUndefined)"

text \<open>\<open>proofArray\<close> is the array \<^verbatim>\<open>proofHashes\<close> after \<^verbatim>\<open>proofHashes.sort()\<close>.\<close>

definition proofArray ::
  "('kp, 'pt, 'rng) platform \<Rightarrow> (string \<times> jsval) list \<Rightarrow> string list
     \<Rightarrow> string property list" where
  "proofArray env allFields disclosedFieldNames =
     (let lvs = leaves (buildMerkleTree env allFields) in
      sort_js (foldl (withheld_step disclosedFieldNames)
        (snd (foldl (disclose_step allFields lvs) (empty_object, []) disclosedFieldNames)) lvs))"

definition generateMerkleProof ::
  "('kp, 'pt, 'rng) platform \<Rightarrow> (string \<times> jsval) list \<Rightarrow> string list \<Rightarrow> MerkleProof" where
  "generateMerkleProof env allFields disclosedFieldNames =
     (let lvs = leaves (buildMerkleTree env allFields) in
      \<lparr>disclosedFields =
         fst (foldl (disclose_step allFields lvs) (empty_object, []) disclosedFieldNames),
       proofJson = JSON_stringify env
         (JArr (map entry_json (proofArray env allFields disclosedFieldNames)))\<rparr>)"

text \<open>
  The elements of that array that are strings, each as \<open>Some\<close> of the string; an
  element that is not a string is \<open>None\<close>.
\<close>

definition proofHashes ::
  "('kp, 'pt, 'rng) platform \<Rightarrow> (string \<times> jsval) list \<Rightarrow> string list \<Rightarrow> string option list" where
  "proofHashes env allFields disclosedFieldNames =
     map (\<lambda>x. case x of Own s \<Rightarrow> Some s | _ \<Rightarrow> None)
       (proofArray env allFields disclosedFieldNames)"

section \<open>The symmetric cipher\<close>

text \<open>
  \<^verbatim>\<open>encryptWithAES\<close> draws a 12-byte IV and returns ciphertext, IV and tag in hex.
  Its \<^verbatim>\<open>data\<close> is \<open>None\<close> when the caller hands it \<^verbatim>\<open>undefined\<close>, which
  \<^verbatim>\<open>cipher.update\<close> refuses with a TypeError.
\<close>

definition encryptWithAES ::
  "('kp, 'pt, 'rng) platform \<Rightarrow> string option \<Rightarrow> buffer \<Rightarrow> 'rng
     \<Rightarrow> js_error + ((string \<times> string \<times> string) \<times> 'rng)" where
  "encryptWithAES env dat key g =
     (case randomBytes env 12 g of (ivBuf, g') \<Rightarrow>
        (case dat of
           None \<Rightarrow>
             Inl (Error (''The '' @ [CHR 0x22] @ ''data'' @ [CHR 0x22] @
               '' argument must be of type string or an instance of Buffer, '' @
               ''TypedArray, or DataView. Received undefined''))
         | Some text \<Rightarrow>
             and_then (gcm_encrypt env key ivBuf text) (\<lambda>(ct, tag).
               Inr ((ct, toString_hex ivBuf, toString_hex tag), g'))))"

definition decryptWithAES ::
  "('kp, 'pt, 'rng) platform \<Rightarrow> string \<Rightarrow> buffer \<Rightarrow> string \<Rightarrow> string \<Rightarrow> js_error + string" where
  "decryptWithAES env ct key ivHex tagHex =
     gcm_decrypt env key (Buffer_from_hex ivHex) (Buffer_from_hex tagHex) ct"

section \<open>Wrapping the DEK for one party\<close>

text \<open>
  The ephemeral key: \<^verbatim>\<open>ephemeralPrivateKey ? ec.keyFromPrivate(...) : ec.genKeyPair()\<close>;
  an absent or empty \<^verbatim>\<open>ephemeralPrivateKey\<close> is falsy.
\<close>

definition ephemeral_key ::
  "('kp, 'pt, 'rng) platform \<Rightarrow> string option \<Rightarrow> 'rng \<Rightarrow> (js_error + 'kp) \<times> 'rng" where
  "ephemeral_key env ephemeralPrivateKey g =
     (case ephemeralPrivateKey of
        Some s \<Rightarrow>
          if s \<noteq> [] then (ec_keyFromPrivate env s, g)
          else (case ec_genKeyPair env g of (kp, g') \<Rightarrow> (Inr kp, g'))
      | None \<Rightarrow> (case ec_genKeyPair env g of (kp, g') \<Rightarrow> (Inr kp, g')))"

definition wrapped_key :: "string \<Rightarrow> string \<Rightarrow> string \<Rightarrow> string \<Rightarrow> jsval" where
  "wrapped_key ephemeralPub ct ivHex tagHex =
     JObj [(''ephemeralPublicKey'', JStr ephemeralPub), (''encryptedDek'', JStr ct),
           (''iv'', JStr ivHex), (''authTag'', JStr tagHex)]"

definition encryptDEKForParty ::
  "('kp, 'pt, 'rng) platform \<Rightarrow> buffer \<Rightarrow> string \<Rightarrow> string option \<Rightarrow> 'rng
     \<Rightarrow> js_error + (string \<times> 'rng)" where
  "encryptDEKForParty env dek partyPublicKey ephemeralPrivateKey g =
     (case ephemeral_key env ephemeralPrivateKey g of (ephemeralR, g1) \<Rightarrow>
        and_then ephemeralR (\<lambda>ephemeral.
        and_then (ec_keyFromPublic env partyPublicKey) (\<lambda>partyKey.
        and_then (kp_getPublic env partyKey) (\<lambda>partyPoint.
        and_then (kp_derive env ephemeral partyPoint) (\<lambda>sharedSecret.
        and_then (encryptWithAES env (Some (toString_hex dek)) (sha256 env sharedSecret) g1)
          (\<lambda>((ct, ivHex, tagHex), g2).
        and_then (kp_getPublic_hex env ephemeral) (\<lambda>ephemeralPub.
          Inr (JSON_stringify env (wrapped_key ephemeralPub ct ivHex tagHex), g2))))))))"

text \<open>
  \<^verbatim>\<open>decryptDEKWithPrivateKey\<close> destructures the parsed JSON. Destructuring
  \<^verbatim>\<open>null\<close> throws; an object whose four properties are strings goes through the
  code as written; any other value reaches the libraries untyped.
\<close>

definition unwrap_typed ::
  "('kp, 'pt, 'rng) platform \<Rightarrow> string \<Rightarrow> string \<Rightarrow> string \<Rightarrow> string \<Rightarrow> string
     \<Rightarrow> js_error + buffer" where
  "unwrap_typed env ephemeralPub encryptedDek ivHex tagHex privKey =
     and_then (ec_keyFromPrivate env privKey) (\<lambda>partyKey.
     and_then (ec_keyFromPublic env ephemeralPub) (\<lambda>ephemeralKey.
     and_then (kp_getPublic env ephemeralKey) (\<lambda>ephemeralPoint.
     and_then (kp_derive env partyKey ephemeralPoint) (\<lambda>sharedSecret.
     and_then (decryptWithAES env encryptedDek (sha256 env sharedSecret) ivHex tagHex)
       (\<lambda>dekHex. Inr (Buffer_from_hex dekHex))))))"

definition decryptDEKWithPrivateKey ::
  "('kp, 'pt, 'rng) platform \<Rightarrow> string \<Rightarrow> string \<Rightarrow> js_error + buffer" where
  "decryptDEKWithPrivateKey env encryptedDekJson privKey =
     and_then (JSON_parse env encryptedDekJson) (\<lambda>v.
       case v of
         JNull \<Rightarrow> Inl (Error ''Cannot destructure property of null'')
       | JUndefined \<Rightarrow> Inl (Error ''Cannot destructure property of undefined'')
       | JObj props \<Rightarrow>
           (case (map_of props ''ephemeralPublicKey'', map_of props ''encryptedDek'',
                  map_of props ''iv'', map_of props ''authTag'') of
              (Some (JStr ephemeralPub), Some (JStr encryptedDek), Some (JStr ivHex),
               Some (JStr tagHex)) \<Rightarrow>
                unwrap_typed env ephemeralPub encryptedDek ivHex tagHex privKey
            | _ \<Rightarrow> unwrap_untyped env v privKey)
       | _ \<Rightarrow> unwrap_untyped env v privKey)"

section \<open>Envelopes\<close>

record EncryptedEnvelope =
  encryptedData :: string
  iv :: string
  authTag :: string
  encryptedKeys :: "(string \<times> string) list"

record DecryptionResult =
  success :: bool
  data :: "jsval option"
  error :: "string option"

text \<open>The loop \<^verbatim>\<open>for (const pubKey of partyPublicKeys)\<close> of \<^verbatim>\<open>createEncryptedEnvelope\<close>.\<close>

fun encrypt_for_parties ::
  "('kp, 'pt, 'rng) platform \<Rightarrow> buffer \<Rightarrow> string list \<Rightarrow> (string \<times> string) list \<Rightarrow> 'rng
     \<Rightarrow> js_error + ((string \<times> string) list \<times> 'rng)" where
  "encrypt_for_parties env dek [] keys g = Inr (keys, g)"
| "encrypt_for_parties env dek (pubKey # rest) keys g =
     and_then (encryptDEKForParty env dek pubKey None g) (\<lambda>(wrapped, g').
       encrypt_for_parties env dek rest
         (AList.update (hashPublicKey env pubKey) wrapped keys) g')"

definition createEncryptedEnvelope ::
  "('kp, 'pt, 'rng) platform \<Rightarrow> jsval \<Rightarrow> string list \<Rightarrow> 'rng
     \<Rightarrow> js_error + (EncryptedEnvelope \<times> 'rng)" where
  "createEncryptedEnvelope env dat partyPublicKeys g =
     (case generateDEK env g of (dek, g1) \<Rightarrow>
        and_then (encryptWithAES env (stringify env dat) dek g1) (\<lambda>((ct, ivHex, tagHex), g2).
        and_then (encrypt_for_parties env dek partyPublicKeys [] g2) (\<lambda>(keys, g3).
          Inr (\<lparr>encryptedData = ct, iv = ivHex, authTag = tagHex, encryptedKeys = keys\<rparr>,
               g3))))"

text \<open>The body of the \<^verbatim>\<open>try\<close> block of \<^verbatim>\<open>decryptEnvelope\<close>, and the function with its \<^verbatim>\<open>catch\<close>.\<close>

definition not_authorized :: DecryptionResult where
  "not_authorized =
     \<lparr>success = False, data = None, error = Some ''Not authorized to decrypt this data''\<rparr>"

definition decryptEnvelope_try ::
  "('kp, 'pt, 'rng) platform \<Rightarrow> EncryptedEnvelope \<Rightarrow> string \<Rightarrow> string
     \<Rightarrow> js_error + DecryptionResult" where
  "decryptEnvelope_try env envelope privKey pubKey =
     (case map_of (encryptedKeys envelope) (hashPublicKey env pubKey) of
        None \<Rightarrow> Inr not_authorized
      | Some encryptedDek \<Rightarrow>
          if encryptedDek = [] then Inr not_authorized
          else
            and_then (decryptDEKWithPrivateKey env encryptedDek privKey) (\<lambda>dek.
            and_then (decryptWithAES env (encryptedData envelope) dek (iv envelope)
                        (authTag envelope)) (\<lambda>jsonData.
            and_then (JSON_parse env jsonData) (\<lambda>v.
              Inr \<lparr>success = True, data = Some v, error = None\<rparr>))))"

definition decryptEnvelope ::
  "('kp, 'pt, 'rng) platform \<Rightarrow> EncryptedEnvelope \<Rightarrow> string \<Rightarrow> string \<Rightarrow> DecryptionResult" where
  "decryptEnvelope env envelope privKey pubKey =
     (case decryptEnvelope_try env envelope privKey pubKey of
        Inr r \<Rightarrow> r
      | Inl e \<Rightarrow> \<lparr>success = False, data = None, error = Some (error_message e)\<rparr>)"

section \<open>Commitments\<close>

record Commitment =
  commitment :: string
  nonce :: string

text \<open>
  \<^verbatim>\<open>toLowerCase\<close> on the letters A to Z; other bytes are left as they are (it is
  only applied to hex digests here).
\<close>

definition toLowerCase :: "string \<Rightarrow> string" where
  "toLowerCase s =
     map (\<lambda>c. if CHR ''A'' \<le> c \<and> c \<le> CHR ''Z'' then char_of (of_char c + (32::nat)) else c) s"

text \<open>\<^verbatim>\<open>nonce || crypto.randomBytes(32).toString('hex')\<close>: an absent or empty nonce is falsy.\<close>

definition generateCommitment ::
  "('kp, 'pt, 'rng) platform \<Rightarrow> jsval \<Rightarrow> string option \<Rightarrow> 'rng \<Rightarrow> Commitment \<times> 'rng" where
  "generateCommitment env dat nonceOpt g =
     (case (case nonceOpt of
              Some n \<Rightarrow>
                if n \<noteq> [] then (n, g)
                else (case randomBytes env 32 g of (b, g') \<Rightarrow> (toString_hex b, g'))
            | None \<Rightarrow> (case randomBytes env 32 g of (b, g') \<Rightarrow> (toString_hex b, g')))
      of (txNonce, g') \<Rightarrow>
        (\<lparr>commitment = ''0x'' @ keccak256 env (String_of (stringify env dat) @ txNonce),
          nonce = txNonce\<rparr>, g'))"

definition verifyCommitment ::
  "('kp, 'pt, 'rng) platform \<Rightarrow> jsval \<Rightarrow> string \<Rightarrow> string \<Rightarrow> 'rng \<Rightarrow> bool \<times> 'rng" where
  "verifyCommitment env dat nonceStr expectedCommitment g =
     (case generateCommitment env dat (Some nonceStr) g of (c, g') \<Rightarrow>
        (toLowerCase (commitment c) = toLowerCase expectedCommitment, g'))"

section \<open>Signatures\<close>


definition verifySignature ::
  "('kp, 'pt, 'rng) platform \<Rightarrow> string \<Rightarrow> string \<Rightarrow> string \<Rightarrow> bool" where
  "verifySignature env dat signature pubKey =
     (case and_then (ec_keyFromPublic env pubKey)
             (\<lambda>key. kp_verify env key (keccak256 env dat) signature) of
        Inr b \<Rightarrow> b
      | Inl e \<Rightarrow> False)"

section \<open>The route POST /disclosures/verify\<close>

text \<open>
  The handler after its zod validation. It rebuilds the leaves of the disclosed
  data, parses the proof, merges the two lists (\<^verbatim>\<open>allHashes\<close>, which it sorts and
  never reads) and answers with the constant \<^verbatim>\<open>isValid = true\<close>. A proof
  that does not parse, or parses to something without \<^verbatim>\<open>filter\<close>, ends in the
  handler's \<^verbatim>\<open>catch\<close> with status 500.
\<close>

record VerifyRequest =
  disclosedData :: "(string \<times> jsval) list"
  merkleProof :: string
  originalMerkleRoot :: string

record VerifyResponse =
  valid :: bool
  disclosedFieldCount :: nat
  expectedRoot :: string
  message :: string

datatype verify_reply = Json200 VerifyResponse | Json500 string

definition allHashes :: "(string \<times> string) list \<Rightarrow> jsval list \<Rightarrow> jsval list" where
  "allHashes lvs parsedProof =
     map (\<lambda>(k, h). JStr h) lvs @ filter (\<lambda>h. h \<notin> set (map (\<lambda>(k, h). JStr h) lvs)) parsedProof"

definition verify_route :: "('kp, 'pt, 'rng) platform \<Rightarrow> VerifyRequest \<Rightarrow> verify_reply" where
  "verify_route env body =
     (let tree = buildMerkleTree env (disclosedData body) in
      case JSON_parse env (merkleProof body) of
        Inl e \<Rightarrow> Json500 ''Verification failed''
      | Inr (JArr parsedProof) \<Rightarrow>
          (let merged = allHashes (leaves tree) parsedProof;
               isValid = True
           in Json200
                \<lparr>valid = isValid,
                 disclosedFieldCount = length (disclosedData body),
                 expectedRoot = originalMerkleRoot body,
                 message =
                   (if isValid then ''Disclosed data is authentic and part of original transaction''
                    else ''Verification failed - data may be tampered'')\<rparr>)
      | Inr _ \<Rightarrow> Json500 ''Verification failed'')"

text \<open>
  What the route is meant to decide, in the words of the specification: recompute
  the leaf digests of the disclosed values, unite them with the digests of the
  proof, sort, hash, and compare with the expected root.
\<close>

definition reconstructed_root ::
  "('kp, 'pt, 'rng) platform \<Rightarrow> (string \<times> jsval) list \<Rightarrow> string list \<Rightarrow> string" where
  "reconstructed_root env disclosed proofDigests =
     (let hs = remdups (map (\<lambda>(key, val). leafHash env key val) disclosed @ proofDigests) in
      if hs = [] then keccak256 env [] else ''0x'' @ keccak256 env (concat (sort hs)))"

definition spec_verifyDisclosure ::
  "('kp, 'pt, 'rng) platform \<Rightarrow> (string \<times> jsval) list \<Rightarrow> string list \<Rightarrow> string \<Rightarrow> bool" where
  "spec_verifyDisclosure env disclosed proofDigests expected =
     (reconstructed_root env disclosed proofDigests = expected)"

section \<open>A small platform to compute with\<close>

text \<open>
  The theorems below hold for every platform with the properties they assume.
  To show that those properties can be met together, and to run the service on
  concrete inputs, \<open>demo_platform\<close> supplies toy versions of the libraries: the
  digest folds the message into 32 bytes by rotating and exclusive or, the cipher writes the
  plaintext in hex and uses the first 16 bytes of the key as its tag, a public
  key is the private key reversed, the shared secret of two keys is the two
  private keys in order, and a signature is the public key followed by the
  hash. The random source is a counter.
\<close>

fun xor_char :: "char \<Rightarrow> char \<Rightarrow> char" where
  "xor_char (Char a0 a1 a2 a3 a4 a5 a6 a7) (Char b0 b1 b2 b3 b4 b5 b6 b7) =
     Char (a0 \<noteq> b0) (a1 \<noteq> b1) (a2 \<noteq> b2) (a3 \<noteq> b3)
          (a4 \<noteq> b4) (a5 \<noteq> b5) (a6 \<noteq> b6) (a7 \<noteq> b7)"

fun rotl_char :: "char \<Rightarrow> char" where
  "rotl_char (Char b0 b1 b2 b3 b4 b5 b6 b7) = Char b7 b0 b1 b2 b3 b4 b5 b6"

fun absorb :: "string \<Rightarrow> string \<Rightarrow> string" where
  "absorb acc [] = acc"
| "absorb [] (c # cs) = []"
| "absorb (a # acc) (c # cs) = absorb (acc @ [xor_char (rotl_char a) c]) cs"

definition demo_keccak256 :: "string \<Rightarrow> string" where
  "demo_keccak256 m = toString_hex (rev (absorb (replicate 32 (CHR 0x00)) m))"

definition demo_sha256 :: "buffer \<Rightarrow> buffer" where
  "demo_sha256 b = take 32 (b @ replicate 32 (CHR 0x00))"

definition demo_randomBytes :: "nat \<Rightarrow> nat \<Rightarrow> buffer \<times> nat" where
  "demo_randomBytes n g = (replicate n (char_of g), Suc g)"

definition demo_gcm_encrypt ::
  "buffer \<Rightarrow> buffer \<Rightarrow> string \<Rightarrow> js_error + (string \<times> buffer)" where
  "demo_gcm_encrypt key ivBuf text =
     (if length key = 32 \<and> length ivBuf = 12 then Inr (toString_hex text, take 16 key)
      else Inl (Error ''Invalid key length''))"

definition demo_gcm_decrypt ::
  "buffer \<Rightarrow> buffer \<Rightarrow> buffer \<Rightarrow> string \<Rightarrow> js_error + string" where
  "demo_gcm_decrypt key ivBuf tag ct =
     (if length key = 32 \<and> length ivBuf = 12 \<and> tag = take 16 key
      then Inr (Buffer_from_hex ct)
      else Inl (Error ''Unsupported state or unable to authenticate data''))"

text \<open>A demo key object is the pair of a private key (empty when absent) and a public key.\<close>

definition demo_genKeyPair :: "nat \<Rightarrow> (string \<times> string) \<times> nat" where
  "demo_genKeyPair g =
     (let s = CHR ''e'' # toString_hex [char_of g] in ((s, rev s), Suc g))"

definition demo_keyFromPrivate :: "string \<Rightarrow> js_error + (string \<times> string)" where
  "demo_keyFromPrivate s = (if s = [] then Inl (Error ''Invalid private key'') else Inr (s, rev s))"

definition demo_keyFromPublic :: "string \<Rightarrow> js_error + (string \<times> string)" where
  "demo_keyFromPublic s = (if s = [] then Inl (Error ''Unknown point format'') else Inr ([], s))"

definition demo_derive :: "string \<times> string \<Rightarrow> string \<Rightarrow> js_error + buffer" where
  "demo_derive k p =
     (if fst k = [] then Inl (Error ''Missing private key'')
      else Inr (if fst k \<le> rev p then fst k @ rev p else rev p @ fst k))"

definition demo_sign :: "string \<times> string \<Rightarrow> string \<Rightarrow> js_error + string" where
  "demo_sign k h =
     (if fst k = [] then Inl (Error ''Missing private key'') else Inr (snd k @ '':'' @ h))"

definition demo_verify :: "string \<times> string \<Rightarrow> string \<Rightarrow> string \<Rightarrow> js_error + bool" where
  "demo_verify k h s = Inr (s = snd k @ '':'' @ h)"

text \<open>
  The demo JSON writes a wrapped key as \<^verbatim>\<open>W\<close> and its four strings, an array
  of strings as \<^verbatim>\<open>A\<close> and its strings, each string after its length in unary,
  and knows the text of a few payloads by heart. Among them are the empty
  object and an object whose only property is \<^verbatim>\<open>undefined\<close>: \<^verbatim>\<open>JSON.stringify\<close>
  leaves such a property out, so both are written \<^verbatim>\<open>{}\<close>, which parses to the
  empty object.
\<close>

definition enc_str :: "string \<Rightarrow> string" where
  "enc_str s = replicate (length s) (CHR ''1'') @ CHR ''0'' # s"

definition dec_str :: "string \<Rightarrow> (string \<times> string) option" where
  "dec_str t =
     (let n = length (takeWhile (\<lambda>c. c = CHR ''1'') t); r = drop (Suc n) t in
      if n < length t \<and> n \<le> length r then Some (take n r, drop n r) else None)"

definition dec_wrapped :: "string \<Rightarrow> jsval option" where
  "dec_wrapped t =
     Option.bind (dec_str t) (\<lambda>(a, t1).
     Option.bind (dec_str t1) (\<lambda>(b, t2).
     Option.bind (dec_str t2) (\<lambda>(c, t3).
     Option.bind (dec_str t3) (\<lambda>(d, t4).
       if t4 = [] then Some (wrapped_key a b c d) else None))))"

definition str_of :: "jsval \<Rightarrow> string option" where
  "str_of v = (case v of JStr s \<Rightarrow> Some s | _ \<Rightarrow> None)"

definition as_wrapped :: "jsval \<Rightarrow> string list option" where
  "as_wrapped v =
     (case v of
        JObj props \<Rightarrow>
          if map fst props = [''ephemeralPublicKey'', ''encryptedDek'', ''iv'', ''authTag'']
          then those (map (\<lambda>p. str_of (snd p)) props)
          else None
      | _ \<Rightarrow> None)"

definition as_strings :: "jsval \<Rightarrow> string list option" where
  "as_strings v = (case v of JArr xs \<Rightarrow> those (map str_of xs) | _ \<Rightarrow> None)"

fun dec_strs :: "nat \<Rightarrow> string \<Rightarrow> string list option" where
  "dec_strs 0 t = (if t = [] then Some [] else None)"
| "dec_strs (Suc n) t =
     (if t = [] then Some []
      else Option.bind (dec_str t) (\<lambda>(x, r). map_option ((#) x) (dec_strs n r)))"

definition acme :: jsval where
  "acme = JObj [(''amount'', JNum 500000), (''buyer'', JStr ''Acme'')]"

definition acme_tampered :: jsval where
  "acme_tampered = JObj [(''amount'', JNum 500001), (''buyer'', JStr ''Acme'')]"

definition demo_texts :: "(jsval \<times> string) list" where
  "demo_texts =
     [(acme, ''{amount:500000,buyer:Acme}''),
      (acme_tampered, ''{amount:500001,buyer:Acme}''),
      (JNum 500000, ''500000''),
      (JNum 500001, ''500001''),
      (JStr ''Acme'', ''Acme''),
      (JObj [], ''{}''),
      (JObj [(''a'', JUndefined)], ''{}'')]"

definition demo_stringify :: "jsval \<Rightarrow> string" where
  "demo_stringify v =
     (case as_wrapped v of
        Some ss \<Rightarrow> CHR ''W'' # concat (map enc_str ss)
      | None \<Rightarrow>
          (case as_strings v of
             Some ss \<Rightarrow> CHR ''A'' # concat (map enc_str ss)
           | None \<Rightarrow> (case map_of demo_texts v of Some t \<Rightarrow> t | None \<Rightarrow> ''null'')))"

definition demo_parse :: "string \<Rightarrow> js_error + jsval" where
  "demo_parse t =
     (case t of
        [] \<Rightarrow> Inl (Error ''Unexpected end of JSON input'')
      | c # rest \<Rightarrow>
          if c = CHR ''W''
          then (case dec_wrapped rest of
                  Some v \<Rightarrow> Inr v
                | None \<Rightarrow> Inl (Error ''Unexpected token''))
          else if c = CHR ''A''
          then (case dec_strs (length rest) rest of
                  Some ss \<Rightarrow> Inr (JArr (map JStr ss))
                | None \<Rightarrow> Inl (Error ''Unexpected token''))
          else (case map_of (map (\<lambda>p. (snd p, fst p)) demo_texts) t of
                  Some v \<Rightarrow> Inr v
                | None \<Rightarrow> Inl (Error ''Unexpected token'')))"

definition demo_platform :: "(string \<times> string, string, nat) platform" where
  "demo_platform =
     \<lparr>randomBytes = demo_randomBytes,
      keccak256 = demo_keccak256,
      sha256 = demo_sha256,
      gcm_encrypt = demo_gcm_encrypt,
      gcm_decrypt = demo_gcm_decrypt,
      ec_genKeyPair = demo_genKeyPair,
      ec_keyFromPrivate = demo_keyFromPrivate,
      ec_keyFromPublic = demo_keyFromPublic,
      kp_getPrivate_hex = fst,
      kp_getPublic_hex = (\<lambda>k. Inr (snd k)),
      kp_getPublic = (\<lambda>k. Inr (snd k)),
      kp_derive = demo_derive,
      kp_sign = demo_sign,
      kp_verify = demo_verify,
      JSON_stringify = demo_stringify,
      JSON_parse = demo_parse,
      unwrap_untyped = (\<lambda>v priv. Inl (Error ''Invalid argument type''))\<rparr>"

section \<open>Properties of the library that theorems assume\<close>

text \<open>
  What the theorems below take from the libraries, each as a predicate on the
  platform. A theorem names the ones it needs among its hypotheses.
\<close>

text \<open>A digest of js-sha3 is 64 lower-case hex digits.\<close>

definition hex_digest :: "('kp, 'pt, 'rng) platform \<Rightarrow> bool" where
  "hex_digest env =
     (\<forall>m. length (keccak256 env m) = 64 \<and> set (keccak256 env m) \<subseteq> set ''0123456789abcdef'')"

text \<open>\<^verbatim>\<open>crypto.randomBytes(n)\<close> returns \<open>n\<close> bytes; a SHA-256 digest has 32.\<close>

definition random_lengths :: "('kp, 'pt, 'rng) platform \<Rightarrow> bool" where
  "random_lengths env = (\<forall>n g. length (fst (randomBytes env n g)) = n)"

definition sha256_length :: "('kp, 'pt, 'rng) platform \<Rightarrow> bool" where
  "sha256_length env = (\<forall>b. length (sha256 env b) = 32)"

text \<open>
  AES-256-GCM with a 32-byte key and a 12-byte IV encrypts every text, and
  decrypting the result with the same key, IV and tag gives the text back.
\<close>

definition cipher_correct :: "('kp, 'pt, 'rng) platform \<Rightarrow> bool" where
  "cipher_correct env =
     (\<forall>key ivBuf text. length key = 32 \<and> length ivBuf = 12 \<longrightarrow>
        (\<exists>ct tag. gcm_encrypt env key ivBuf text = Inr (ct, tag) \<and>
                  gcm_decrypt env key ivBuf tag ct = Inr text))"

text \<open>
  \<^verbatim>\<open>JSON.parse(JSON.stringify(v))\<close> is \<open>v\<close> again, and a JSON text is not empty: for
  one value, and for every wrapped key.
\<close>

definition json_roundtrip :: "('kp, 'pt, 'rng) platform \<Rightarrow> jsval \<Rightarrow> bool" where
  "json_roundtrip env v =
     (JSON_parse env (JSON_stringify env v) = Inr v \<and> JSON_stringify env v \<noteq> [])"

definition json_wrapped_roundtrip :: "('kp, 'pt, 'rng) platform \<Rightarrow> bool" where
  "json_wrapped_roundtrip env = (\<forall>a b c d. json_roundtrip env (wrapped_key a b c d))"

text \<open>
  Diffie-Hellman. \<open>sender_secret\<close> is the shared secret as \<^verbatim>\<open>encryptDEKForParty\<close>
  computes it, from an ephemeral key and the party's public key;
  \<open>recipient_secret\<close> as \<^verbatim>\<open>decryptDEKWithPrivateKey\<close> computes it, from the party's
  private key and the ephemeral public key. A public key is usable when
  wrapping for it never throws, whatever ephemeral key is drawn; \<open>priv\<close> and
  \<open>pub\<close> are a key pair for ECDH when moreover both sides get the same secret.
\<close>

definition sender_secret ::
  "('kp, 'pt, 'rng) platform \<Rightarrow> 'kp \<Rightarrow> string \<Rightarrow> js_error + buffer" where
  "sender_secret env ephemeral pub =
     and_then (ec_keyFromPublic env pub) (\<lambda>partyKey.
     and_then (kp_getPublic env partyKey) (\<lambda>partyPoint.
       kp_derive env ephemeral partyPoint))"

definition recipient_secret ::
  "('kp, 'pt, 'rng) platform \<Rightarrow> string \<Rightarrow> string \<Rightarrow> js_error + buffer" where
  "recipient_secret env priv ephemeralPub =
     and_then (ec_keyFromPrivate env priv) (\<lambda>partyKey.
     and_then (ec_keyFromPublic env ephemeralPub) (\<lambda>ephemeralKey.
     and_then (kp_getPublic env ephemeralKey) (\<lambda>ephemeralPoint.
       kp_derive env partyKey ephemeralPoint)))"

definition usable_public_key :: "('kp, 'pt, 'rng) platform \<Rightarrow> string \<Rightarrow> bool" where
  "usable_public_key env pub =
     (\<forall>g. \<exists>secret ephemeralPub.
        sender_secret env (fst (ec_genKeyPair env g)) pub = Inr secret \<and>
        kp_getPublic_hex env (fst (ec_genKeyPair env g)) = Inr ephemeralPub)"

definition ecdh_key_pair :: "('kp, 'pt, 'rng) platform \<Rightarrow> string \<Rightarrow> string \<Rightarrow> bool" where
  "ecdh_key_pair env priv pub =
     (\<forall>g. \<exists>secret ephemeralPub.
        sender_secret env (fst (ec_genKeyPair env g)) pub = Inr secret \<and>
        kp_getPublic_hex env (fst (ec_genKeyPair env g)) = Inr ephemeralPub \<and>
        recipient_secret env priv ephemeralPub = Inr secret)"



text \<open>An entry of the map of wrapped keys that \<open>priv\<close> unwraps to the DEK.\<close>

definition opens :: "('kp, 'pt, 'rng) platform \<Rightarrow> string \<Rightarrow> buffer \<Rightarrow> string option \<Rightarrow> bool" where
  "opens env priv dek entry =
     (case entry of
        None \<Rightarrow> False
      | Some w \<Rightarrow> w \<noteq> [] \<and> decryptDEKWithPrivateKey env w priv = Inr dek)"

section \<open>Thrown errors: lemmas\<close>

lemma and_then_Inr [simp]: "and_then (Inr x) f = f x"
  by (simp add: and_then_def)

lemma and_then_Inl [simp]: "and_then (Inl e) f = Inl e"
  by (simp add: and_then_def)

lemma and_then_eq_Inr:
  "and_then m f = Inr y \<longleftrightarrow> (\<exists>x. m = Inr x \<and> f x = Inr y)"
  by (cases m) simp_all

lemma and_then_assoc:
  "and_then (and_then m f) h = and_then m (\<lambda>x. and_then (f x) h)"
  by (cases m) simp_all

section \<open>Hex encoding: lemmas\<close>

lemma hex_digits_table:
  "\<forall>n \<in> set [0..<16]. hex_value (hex_digit n) = Some n \<and> hex_digit n \<in> set ''0123456789abcdef''"
  by code_simp

lemma hex_value_hex_digit: "n < 16 \<Longrightarrow> hex_value (hex_digit n) = Some n"
  using hex_digits_table by simp

lemma Buffer_from_hex_toString_hex [simp]: "Buffer_from_hex (toString_hex b) = b"
proof (induction b)
  case Nil
  show ?case by (simp add: toString_hex_def)
next
  case (Cons c b)
  have hi: "hex_value (hex_digit (of_char c div 16)) = Some (of_char c div 16)"
    by (rule hex_value_hex_digit) (simp add: less_mult_imp_div_less)
  have lo: "hex_value (hex_digit (of_char c mod 16)) = Some (of_char c mod 16)"
    by (rule hex_value_hex_digit) simp
  have "char_of (16 * (of_char c div 16) + of_char c mod 16 :: nat) = c"
    by simp
  with hi lo Cons show ?case
    by (simp add: toString_hex_def)
qed

lemma hex_digit_in: "hex_digit n \<in> set ''0123456789abcdef''"
proof -
  have "hex_digit (n mod 16) \<in> set ''0123456789abcdef''"
    using hex_digits_table by simp
  then show ?thesis
    by (simp add: hex_digit_def)
qed

lemma set_toString_hex: "set (toString_hex b) \<subseteq> set ''0123456789abcdef''"
  unfolding toString_hex_def using hex_digit_in by (induction b) auto

lemma length_toString_hex: "length (toString_hex b) = 2 * length b"
  by (induction b) (simp_all add: toString_hex_def)

lemma hex_digit_low:
  "hex_digit (of_char (Char b0 b1 b2 b3 b4 b5 b6 b7) mod 16) = hex_of_nibble b0 b1 b2 b3"
proof -
  have "(of_char (Char b0 b1 b2 b3 b4 b5 b6 b7) :: nat) mod 16 =
      of_bool b0 + 2 * of_bool b1 + 4 * of_bool b2 + 8 * of_bool b3"
    by (simp add: of_char_def horner_sum_simps) 
  then show ?thesis
    by (cases b0; cases b1; cases b2; cases b3) (simp_all add: hex_digit_def hex_of_nibble_def)
qed

lemma hex_digit_high:
  "hex_digit (of_char (Char b0 b1 b2 b3 b4 b5 b6 b7) div 16) = hex_of_nibble b4 b5 b6 b7"
proof -
  have "(of_char (Char b0 b1 b2 b3 b4 b5 b6 b7) :: nat) div 16 =
      of_bool b4 + 2 * of_bool b5 + 4 * of_bool b6 + 8 * of_bool b7"
    by (simp add: of_char_def horner_sum_simps) 
  then show ?thesis
    by (cases b4; cases b5; cases b6; cases b7) (simp_all add: hex_digit_def hex_of_nibble_def)
qed

lemma toString_hex_Cons:
  "toString_hex (c # cs) =
     hex_digit (of_char c div 16) # hex_digit (of_char c mod 16) # toString_hex cs"
  by (simp add: toString_hex_def)

lemma toString_hex_code [code]:
  "toString_hex [] = []"
  "toString_hex (Char b0 b1 b2 b3 b4 b5 b6 b7 # cs) =
     hex_of_nibble b4 b5 b6 b7 # hex_of_nibble b0 b1 b2 b3 # toString_hex cs"
proof -
  show "toString_hex [] = []"
    by (simp add: toString_hex_def)
  show "toString_hex (Char b0 b1 b2 b3 b4 b5 b6 b7 # cs) =
     hex_of_nibble b4 b5 b6 b7 # hex_of_nibble b0 b1 b2 b3 # toString_hex cs"
    unfolding toString_hex_Cons hex_digit_low hex_digit_high by (rule refl)
qed

section \<open>The demo platform keeps the contracts of the libraries\<close>

lemma demo_selectors [simp]:
  "randomBytes demo_platform = demo_randomBytes"
  "keccak256 demo_platform = demo_keccak256"
  "sha256 demo_platform = demo_sha256"
  "gcm_encrypt demo_platform = demo_gcm_encrypt"
  "gcm_decrypt demo_platform = demo_gcm_decrypt"
  "ec_genKeyPair demo_platform = demo_genKeyPair"
  "ec_keyFromPrivate demo_platform = demo_keyFromPrivate"
  "ec_keyFromPublic demo_platform = demo_keyFromPublic"
  "kp_getPrivate_hex demo_platform = fst"
  "kp_getPublic_hex demo_platform = (\<lambda>k. Inr (snd k))"
  "kp_getPublic demo_platform = (\<lambda>k. Inr (snd k))"
  "kp_derive demo_platform = demo_derive"
  "kp_sign demo_platform = demo_sign"
  "kp_verify demo_platform = demo_verify"
  "JSON_stringify demo_platform = demo_stringify"
  "JSON_parse demo_platform = demo_parse"
  by (simp_all add: demo_platform_def)

lemma length_absorb: "length (absorb acc m) = length acc"
  by (induction acc m rule: absorb.induct) simp_all

lemma hex_digest_demo: "hex_digest demo_platform"
proof -
  have "length (demo_keccak256 m) = 64" for m
    by (simp add: demo_keccak256_def length_toString_hex length_absorb)
  moreover have "set (demo_keccak256 m) \<subseteq> set ''0123456789abcdef''" for m
    unfolding demo_keccak256_def by (rule set_toString_hex)
  ultimately show ?thesis
    unfolding hex_digest_def by simp
qed

lemma random_lengths_demo: "random_lengths demo_platform"
  by (simp add: random_lengths_def demo_randomBytes_def)

lemma sha256_length_demo: "sha256_length demo_platform"
  by (auto simp: sha256_length_def demo_sha256_def)

lemma cipher_correct_demo: "cipher_correct demo_platform"
  by (simp add: cipher_correct_def demo_gcm_encrypt_def demo_gcm_decrypt_def)

lemma takeWhile_replicate:
  "y \<noteq> x \<Longrightarrow> takeWhile (\<lambda>c. c = x) (replicate n x @ y # r) = replicate n x"
  by (induction n) simp_all

lemma dec_str_enc_str: "dec_str (enc_str s @ t) = Some (s, t)"
proof -
  have "takeWhile (\<lambda>c. c = CHR ''1'') (replicate (length s) (CHR ''1'') @ CHR ''0'' # s @ t) =
      replicate (length s) (CHR ''1'')"
    by (rule takeWhile_replicate) simp
  then show ?thesis
    by (simp add: dec_str_def enc_str_def Let_def)
qed

lemma json_wrapped_roundtrip_demo: "json_wrapped_roundtrip demo_platform"
proof -
  have "as_wrapped (wrapped_key a b c d) = Some [a, b, c, d]" for a b c d
    by (simp add: as_wrapped_def wrapped_key_def str_of_def)
  then have s: "demo_stringify (wrapped_key a b c d) =
      CHR ''W'' # enc_str a @ enc_str b @ enc_str c @ enc_str d" for a b c d
    by (simp add: demo_stringify_def)
  have "dec_wrapped (enc_str a @ enc_str b @ enc_str c @ enc_str d) =
      Some (wrapped_key a b c d)" for a b c d
    using dec_str_enc_str [of d "[]"]
    by (simp add: dec_wrapped_def dec_str_enc_str)
  then have "demo_parse (demo_stringify (wrapped_key a b c d)) = Inr (wrapped_key a b c d)"
    for a b c d
    by (simp add: s demo_parse_def)
  then show ?thesis
    by (simp add: json_wrapped_roundtrip_def json_roundtrip_def s)
qed

lemma usable_public_key_demo: "pub \<noteq> [] \<Longrightarrow> usable_public_key demo_platform pub"
  by (simp add: usable_public_key_def sender_secret_def demo_genKeyPair_def Let_def
      demo_keyFromPublic_def demo_derive_def)

lemma ecdh_key_pair_demo: "priv \<noteq> [] \<Longrightarrow> ecdh_key_pair demo_platform priv (rev priv)"
  by (auto simp: ecdh_key_pair_def sender_secret_def recipient_secret_def demo_genKeyPair_def
      Let_def demo_keyFromPublic_def demo_keyFromPrivate_def demo_derive_def)

section \<open>The disclosure tree: theorems\<close>

subsection \<open>The root\<close>

lemma foldl_leaf_step_hashes:
  "snd (foldl (leaf_step env) (lvs, hs) flds) =
     hs @ map (\<lambda>(key, val). leafHash env key val) flds"
  by (induction flds arbitrary: lvs hs) (auto simp: leaf_step_def)

lemma buildMerkleTree_root:
  "root (buildMerkleTree env flds) =
     (if flds = [] then keccak256 env ''''
      else ''0x'' @ keccak256 env (concat (sort (map (\<lambda>(key, val). leafHash env key val) flds))))"
proof -
  obtain lvs hashes where f: "foldl (leaf_step env) ([], []) flds = (lvs, hashes)"
    by (cases "foldl (leaf_step env) ([], []) flds")
  have "hashes = map (\<lambda>(key, val). leafHash env key val) flds"
    using foldl_leaf_step_hashes [of env "[]" "[]" flds] f by simp
  then show ?thesis
    by (simp add: buildMerkleTree_def f)
qed

text \<open>
  Claim C7. Two field maps that hold the same (name, value) pairs, in whatever
  order they are enumerated, get the same root from \<^verbatim>\<open>buildMerkleTree\<close>; and the
  root of a non-empty field map is the hash of the concatenation of its sorted
  leaf digests (written, as every digest the tree returns for fields, after the
  prefix 0x).
\<close>

theorem buildMerkleTree_root_order_independent:
  assumes "distinct (map fst xs)" and "distinct (map fst ys)" and "set xs = set ys"
  shows "root (buildMerkleTree env xs) = root (buildMerkleTree env ys) \<and>
    (xs \<noteq> [] \<longrightarrow>
       root (buildMerkleTree env xs) =
         ''0x'' @ keccak256 env (concat (sort (map (\<lambda>(key, val). leafHash env key val) xs))))"
proof -
  have "distinct xs" "distinct ys"
    using assms(1,2) by (auto simp: distinct_map)
  with assms(3) have "mset xs = mset ys"
    by (simp add: set_eq_iff_mset_eq_distinct)
  then have "mset (map (\<lambda>(key, val). leafHash env key val) xs) =
      mset (map (\<lambda>(key, val). leafHash env key val) ys)"
    by simp
  then have "sort (map (\<lambda>(key, val). leafHash env key val) xs) =
      sort (map (\<lambda>(key, val). leafHash env key val) ys)"
    by (metis mset_sort properties_for_sort sorted_sort)
  moreover have "xs = [] \<longleftrightarrow> ys = []"
    using assms(3) by auto
  ultimately show ?thesis
    by (simp add: buildMerkleTree_root)
qed

theorem buildMerkleTree_root_order_independent_witness:
  "root (buildMerkleTree demo_platform [(''amount'', JNum 500000), (''buyer'', JStr ''Acme'')]) =
     root (buildMerkleTree demo_platform [(''buyer'', JStr ''Acme''), (''amount'', JNum 500000)])
   \<and> root (buildMerkleTree demo_platform [(''amount'', JNum 500000), (''buyer'', JStr ''Acme'')]) =
     ''0x'' @ keccak256 demo_platform (concat (sort
        (map (\<lambda>(key, val). leafHash demo_platform key val)
           [(''amount'', JNum 500000), (''buyer'', JStr ''Acme'')])))"
proof -
  let ?xs = "[(''amount'', JNum 500000), (''buyer'', JStr ''Acme'')]"
  let ?ys = "[(''buyer'', JStr ''Acme''), (''amount'', JNum 500000)]"
  have d: "distinct (map fst ?xs)" "distinct (map fst ?ys)" by simp_all
  have s: "set ?xs = set ?ys" by auto
  have ne: "?xs \<noteq> []" by simp
  from buildMerkleTree_root_order_independent [OF d s, of demo_platform] ne
  show ?thesis by blast
qed

text \<open>
  Claim C10. The root carries the prefix 0x exactly when the field map is not
  empty; the root of the empty field map is the bare hex digest of the empty
  string, so the root of a non-empty map is never equal to it as a string.
  The digests of js-sha3 are hex (\<open>hex_digest\<close>), which is what keeps 0x out
  of the bare digest.
\<close>

theorem buildMerkleTree_root_prefix:
  assumes "hex_digest env"
  shows "(take 2 (root (buildMerkleTree env flds)) = ''0x'' \<longleftrightarrow> flds \<noteq> [])
    \<and> root (buildMerkleTree env []) = keccak256 env ''''
    \<and> (flds \<noteq> [] \<longrightarrow> root (buildMerkleTree env flds) \<noteq> root (buildMerkleTree env []))"
proof -
  have len: "length (keccak256 env m) = 64" and hex: "set (keccak256 env m) \<subseteq> set ''0123456789abcdef''" for m
    using assms by (auto simp: hex_digest_def)
  have "take 2 (keccak256 env '''') \<noteq> ''0x''"
  proof
    assume "take 2 (keccak256 env '''') = ''0x''"
    then have "CHR ''x'' \<in> set (take 2 (keccak256 env ''''))" by simp
    then have "CHR ''x'' \<in> set (keccak256 env '''')" by (rule in_set_takeD)
    with hex [of "''''"] show False by auto
  qed
  moreover have "''0x'' @ keccak256 env m \<noteq> keccak256 env ''''" for m
  proof
    assume "''0x'' @ keccak256 env m = keccak256 env ''''"
    then have "length (''0x'' @ keccak256 env m) = length (keccak256 env '''')" by simp
    then show False by (simp add: len)
  qed
  ultimately show ?thesis
    by (simp add: buildMerkleTree_root)
qed

theorem buildMerkleTree_root_prefix_witness:
  "take 2 (root (buildMerkleTree demo_platform [(''amount'', JNum 500000)])) = ''0x''
    \<and> root (buildMerkleTree demo_platform []) = keccak256 demo_platform ''''
    \<and> root (buildMerkleTree demo_platform [(''amount'', JNum 500000)]) \<noteq>
        root (buildMerkleTree demo_platform [])"
proof -
  have ne: "[(''amount'', JNum 500000)] \<noteq> []" by simp
  from buildMerkleTree_root_prefix [OF hex_digest_demo, of "[(''amount'', JNum 500000)]"] ne
  show ?thesis by blast
qed

subsection \<open>What a disclosure proof contains\<close>

lemma update_fresh: "k \<notin> fst ` set al \<Longrightarrow> AList.update k v al = al @ [(k, v)]"
  by (induction al) auto

lemma foldl_leaf_step_leaves:
  "distinct (map fst lvs @ map fst flds) \<Longrightarrow> ''__proto__'' \<notin> fst ` set flds \<Longrightarrow>
   fst (foldl (leaf_step env) (lvs, hs) flds) =
     lvs @ map (\<lambda>(key, val). (key, leafHash env key val)) flds"
proof (induction flds arbitrary: lvs hs)
  case Nil
  show ?case by simp
next
  case (Cons p flds)
  obtain key val where p: "p = (key, val)" by (cases p)
  from Cons.prems(1) have fresh: "key \<notin> fst ` set lvs"
    by (auto simp: p)
  from Cons.prems(2) have key: "key \<noteq> ''__proto__''"
    by (auto simp: p)
  have step: "leaf_step env (lvs, hs) (key, val) =
      (lvs @ [(key, leafHash env key val)], hs @ [leafHash env key val])"
    using key by (simp add: leaf_step_def set_leaf_def update_fresh [OF fresh])
  from Cons.prems(1)
  have d: "distinct (map fst (lvs @ [(key, leafHash env key val)]) @ map fst flds)"
    by (auto simp: p)
  from Cons.prems(2) have "''__proto__'' \<notin> fst ` set flds"
    by simp
  from Cons.IH [OF d this] show ?case
    by (simp add: step p)
qed

lemma buildMerkleTree_leaves:
  assumes "distinct (map fst flds)" and "''__proto__'' \<notin> fst ` set flds"
  shows "leaves (buildMerkleTree env flds) = map (\<lambda>(key, val). (key, leafHash env key val)) flds"
proof -
  obtain lvs hashes where f: "foldl (leaf_step env) ([], []) flds = (lvs, hashes)"
    by (cases "foldl (leaf_step env) ([], []) flds")
  have "lvs = map (\<lambda>(key, val). (key, leafHash env key val)) flds"
    using foldl_leaf_step_leaves [of "[]" flds env "[]"] assms f by simp
  then show ?thesis
    by (simp add: buildMerkleTree_def f)
qed

lemma map_of_leaves:
  "map_of (map (\<lambda>(key, val). (key, leafHash env key val)) flds) k =
     map_option (leafHash env k) (map_of flds k)"
  by (induction flds) auto

text \<open>The entries the first loop pushes, and those the second loop pushes.\<close>

lemma disclose_step_snd:
  "snd (disclose_step allFields lvs (disclosed, pushed) n) =
     pushed @ (if get_property allFields n \<noteq> Absent \<and> get_property allFields n \<noteq> Own JUndefined
               then [get_property lvs n] else [])"
  by (simp add: disclose_step_def)

lemma foldl_disclose_step:
  "snd (foldl (disclose_step allFields lvs) acc names) =
     snd acc @ concat (map (\<lambda>fieldName.
       if get_property allFields fieldName \<noteq> Absent
          \<and> get_property allFields fieldName \<noteq> Own JUndefined
       then [get_property lvs fieldName] else []) names)"
proof (induction names arbitrary: acc)
  case Nil
  show ?case by simp
next
  case (Cons n names)
  obtain disclosed pushed where acc: "acc = (disclosed, pushed)" by (cases acc)
  show ?case
    unfolding foldl_Cons Cons.IH acc disclose_step_snd by simp
qed

lemma foldl_withheld_step:
  "foldl (withheld_step names) pushed lvs =
     pushed @ map (\<lambda>(key, hash). Own hash) (filter (\<lambda>(key, hash). key \<notin> set names) lvs)"
  by (induction lvs arbitrary: pushed) (auto simp: withheld_step_def)

lemma insort_key_Own:
  "insort_key entry_text (Own x) (map Own ys) = map Own (insort x ys)"
  by (induction ys) (simp_all add: entry_text_def)

lemma sort_js_Own: "sort_js (map Own xs) = map Own (sort xs)"
proof -
  have "filter (\<lambda>x. x \<noteq> Absent) (map Own xs) = map Own xs"
    by (induction xs) simp_all
  moreover have "filter (\<lambda>x. x = Absent) (map Own xs) = []"
    by (induction xs) simp_all
  moreover have "sort_key entry_text (map Own xs) = map Own (sort xs)"
    by (induction xs) (simp_all add: insort_key_Own)
  ultimately show ?thesis
    by (simp add: sort_js_def)
qed

text \<open>
  Claim C5, as amended. Take a field map (distinct names) with no field named
  \<^verbatim>\<open>__proto__\<close>, and requested names among which every name of
  \<^verbatim>\<open>Object.prototype\<close> is a field of the map. Then the proof of
  \<^verbatim>\<open>generateMerkleProof\<close> is the JSON text of the sorted array that holds the
  leaf digest of every requested name that is a field with a defined value,
  once per request, and the leaf digest of every field that was not requested.
\<close>

theorem generateMerkleProof_contents:
  assumes "distinct (map fst allFields)"
    and "''__proto__'' \<notin> fst ` set allFields"
    and "\<forall>name \<in> set names. name \<in> set Object_prototype_names \<longrightarrow> name \<in> fst ` set allFields"
  shows "proofArray env allFields names =
      map Own (sort
        (concat (map (\<lambda>fieldName.
           case map_of allFields fieldName of
             None \<Rightarrow> []
           | Some v \<Rightarrow> if v \<noteq> JUndefined then [leafHash env fieldName v] else []) names)
         @ map (\<lambda>(key, val). leafHash env key val)
             (filter (\<lambda>(key, val). key \<notin> set names) allFields)))
    \<and> proofJson (generateMerkleProof env allFields names) =
        JSON_stringify env (JArr (map JStr (sort
          (concat (map (\<lambda>fieldName.
             case map_of allFields fieldName of
               None \<Rightarrow> []
             | Some v \<Rightarrow> if v \<noteq> JUndefined then [leafHash env fieldName v] else []) names)
           @ map (\<lambda>(key, val). leafHash env key val)
               (filter (\<lambda>(key, val). key \<notin> set names) allFields)))))"
proof -
  let ?lvs = "map (\<lambda>(key, val). (key, leafHash env key val)) allFields"
  let ?first = "\<lambda>fieldName.
           case map_of allFields fieldName of
             None \<Rightarrow> []
           | Some v \<Rightarrow> if v \<noteq> JUndefined then [leafHash env fieldName v] else []"
  let ?pushed = "\<lambda>fieldName.
       if get_property allFields fieldName \<noteq> Absent
          \<and> get_property allFields fieldName \<noteq> Own JUndefined
       then [get_property ?lvs fieldName] else []"
  have lv: "leaves (buildMerkleTree env allFields) = ?lvs"
    by (rule buildMerkleTree_leaves [OF assms(1,2)])
  have one: "?pushed n = map Own (?first n)" if "n \<in> set names" for n
  proof (cases "map_of allFields n")
    case None
    then have "n \<notin> fst ` set allFields"
      by (simp add: map_of_eq_None_iff)
    with assms(3) that have "n \<notin> set Object_prototype_names"
      by blast
    with None show ?thesis
      by (simp add: get_property_def)
  next
    case (Some v)
    then show ?thesis
      by (simp add: get_property_def map_of_leaves)
  qed
  have "map ?pushed names = map (\<lambda>n. map Own (?first n)) names"
    by (rule map_cong [OF refl]) (rule one)
  then have "concat (map ?pushed names) = concat (map (\<lambda>n. map Own (?first n)) names)"
    by (rule arg_cong)
  also have "\<dots> = map Own (concat (map ?first names))"
    by (simp add: map_concat comp_def)
  finally have first: "concat (map ?pushed names) = map Own (concat (map ?first names))" .
  have second: "map (\<lambda>(key, hash). Own hash) (filter (\<lambda>(key, hash). key \<notin> set names) ?lvs)
      = map Own (map (\<lambda>(key, val). leafHash env key val)
             (filter (\<lambda>(key, val). key \<notin> set names) allFields))"
    by (induction allFields) auto
  have "proofArray env allFields names =
      sort_js (map Own (concat (map ?first names)
        @ map (\<lambda>(key, val). leafHash env key val)
             (filter (\<lambda>(key, val). key \<notin> set names) allFields)))"
    unfolding proofArray_def Let_def lv foldl_withheld_step foldl_disclose_step first second
    by simp
  then have A: "proofArray env allFields names =
      map Own (sort (concat (map ?first names)
        @ map (\<lambda>(key, val). leafHash env key val)
             (filter (\<lambda>(key, val). key \<notin> set names) allFields)))"
    by (simp only: sort_js_Own)
  have "map entry_json (map Own xs) = map JStr xs" for xs :: "string list"
    by (simp add: entry_json_def)
  with A have B: "proofJson (generateMerkleProof env allFields names) =
        JSON_stringify env (JArr (map JStr (sort (concat (map ?first names)
        @ map (\<lambda>(key, val). leafHash env key val)
             (filter (\<lambda>(key, val). key \<notin> set names) allFields)))))"
    by (simp only: generateMerkleProof_def Let_def MerkleProof.simps)
  from A B show ?thesis by (rule conjI)
qed

theorem generateMerkleProof_contents_witness:
  "proofArray demo_platform [(''amount'', JNum 500000), (''buyer'', JStr ''Acme'')]
      [''amount'', ''seller''] =
      map Own (sort
        (concat (map (\<lambda>fieldName.
           case map_of [(''amount'', JNum 500000), (''buyer'', JStr ''Acme'')] fieldName of
             None \<Rightarrow> []
           | Some v \<Rightarrow> if v \<noteq> JUndefined then [leafHash demo_platform fieldName v] else [])
           [''amount'', ''seller''])
         @ map (\<lambda>(key, val). leafHash demo_platform key val)
             (filter (\<lambda>(key, val). key \<notin> set [''amount'', ''seller''])
                [(''amount'', JNum 500000), (''buyer'', JStr ''Acme'')])))
    \<and> proofJson (generateMerkleProof demo_platform
          [(''amount'', JNum 500000), (''buyer'', JStr ''Acme'')] [''amount'', ''seller'']) =
        JSON_stringify demo_platform (JArr (map JStr (sort
          (concat (map (\<lambda>fieldName.
             case map_of [(''amount'', JNum 500000), (''buyer'', JStr ''Acme'')] fieldName of
               None \<Rightarrow> []
             | Some v \<Rightarrow> if v \<noteq> JUndefined then [leafHash demo_platform fieldName v] else [])
             [''amount'', ''seller''])
           @ map (\<lambda>(key, val). leafHash demo_platform key val)
               (filter (\<lambda>(key, val). key \<notin> set [''amount'', ''seller''])
                  [(''amount'', JNum 500000), (''buyer'', JStr ''Acme'')])))))"
proof -
  have d: "distinct (map fst [(''amount'', JNum 500000), (''buyer'', JStr ''Acme'')])"
    by simp
  have p: "''__proto__'' \<notin> fst ` set [(''amount'', JNum 500000), (''buyer'', JStr ''Acme'')]"
    by simp
  have n: "\<forall>name \<in> set [''amount'', ''seller''].
      name \<in> set Object_prototype_names \<longrightarrow>
        name \<in> fst ` set [(''amount'', JNum 500000), (''buyer'', JStr ''Acme'')]"
    by (simp add: Object_prototype_names_def)
  show ?thesis
    by (rule generateMerkleProof_contents [OF d p n])
qed

text \<open>
  Claim C5, as stated, fails: with the fields amount and buyer and only amount
  disclosed, the proof is the array of both leaf digests, not the array of the
  digest of buyer alone, and the digest of the disclosed amount is in it.
\<close>

theorem generateMerkleProof_counterexample:
  "proofJson (generateMerkleProof demo_platform
       [(''amount'', JNum 500000), (''buyer'', JStr ''Acme'')] [''amount'']) =
     JSON_stringify demo_platform
       (JArr [JStr (leafHash demo_platform ''amount'' (JNum 500000)),
              JStr (leafHash demo_platform ''buyer'' (JStr ''Acme''))])
   \<and> proofJson (generateMerkleProof demo_platform
       [(''amount'', JNum 500000), (''buyer'', JStr ''Acme'')] [''amount'']) \<noteq>
     JSON_stringify demo_platform
       (JArr [JStr (leafHash demo_platform ''buyer'' (JStr ''Acme''))])
   \<and> Own (leafHash demo_platform ''amount'' (JNum 500000)) \<in>
       set (proofArray demo_platform
         [(''amount'', JNum 500000), (''buyer'', JStr ''Acme'')] [''amount''])"
  by code_simp

text \<open>
  Outside the hypotheses of the theorem the proof holds other things. A
  requested name that only \<^verbatim>\<open>Object.prototype\<close> has passes the test of the
  first loop, which then pushes the inherited member: after the digests of all
  the fields (none was requested) the array ends with the function
  \<^verbatim>\<open>toString\<close>. And a field named \<^verbatim>\<open>__proto__\<close> gets no leaf, so its digest is
  missing from the proof when it is withheld.
\<close>

lemma generateMerkleProof_inherited_name:
  "proofArray demo_platform [(''amount'', JNum 500000), (''buyer'', JStr ''Acme'')] [''toString''] =
     [Own (leafHash demo_platform ''amount'' (JNum 500000)),
      Own (leafHash demo_platform ''buyer'' (JStr ''Acme'')),
      Inherited ''toString'']"
  by code_simp

lemma generateMerkleProof_field_named_proto:
  "proofArray demo_platform [(''__proto__'', JNum 500000), (''buyer'', JStr ''Acme'')] [''buyer''] =
     [Own (leafHash demo_platform ''buyer'' (JStr ''Acme''))]"
  by code_simp

subsection \<open>The verification route accepts everything\<close>

lemma verify_route_never_rejects: "verify_route env body = Json200 r \<Longrightarrow> valid r"
  by (auto simp: verify_route_def Let_def split: sum.splits jsval.splits)

text \<open>
  Claim C3 does not hold of the route. The tree of the fields amount and buyer
  is built, amount is disclosed with the proof \<^verbatim>\<open>generateMerkleProof\<close> returns,
  and the disclosed amount is then changed from 500000 to 500001. The root
  reconstructed from the changed value and the digests of the proof is not the
  original root, and the route answers \<^verbatim>\<open>valid: true\<close> all the same.
\<close>

theorem verify_route_accepts_tampered_disclosure:
  "verify_route demo_platform
     \<lparr>disclosedData = [(''amount'', JNum 500001)],
      merkleProof = proofJson (generateMerkleProof demo_platform
        [(''amount'', JNum 500000), (''buyer'', JStr ''Acme'')] [''amount'']),
      originalMerkleRoot =
        root (buildMerkleTree demo_platform [(''amount'', JNum 500000), (''buyer'', JStr ''Acme'')])\<rparr>
   = Json200
     \<lparr>valid = True, disclosedFieldCount = 1,
      expectedRoot =
        root (buildMerkleTree demo_platform [(''amount'', JNum 500000), (''buyer'', JStr ''Acme'')]),
      message = ''Disclosed data is authentic and part of original transaction''\<rparr>
   \<and> \<not> spec_verifyDisclosure demo_platform [(''amount'', JNum 500001)]
        (List.map_filter (\<lambda>h. h)
          (proofHashes demo_platform
             [(''amount'', JNum 500000), (''buyer'', JStr ''Acme'')] [''amount'']))
        (root (buildMerkleTree demo_platform [(''amount'', JNum 500000), (''buyer'', JStr ''Acme'')]))
   \<and> spec_verifyDisclosure demo_platform [(''amount'', JNum 500000)]
        (List.map_filter (\<lambda>h. h)
          (proofHashes demo_platform
             [(''amount'', JNum 500000), (''buyer'', JStr ''Acme'')] [''amount'']))
        (root (buildMerkleTree demo_platform [(''amount'', JNum 500000), (''buyer'', JStr ''Acme'')]))"
  by code_simp

section \<open>Commitments: theorems\<close>

lemma not_upper_hex:
  "\<forall>c \<in> set ''0123456789abcdefx''. \<not> (CHR ''A'' \<le> c \<and> c \<le> CHR ''Z'')"
  by code_simp

lemma toLowerCase_hex:
  assumes "set s \<subseteq> set ''0123456789abcdefx''"
  shows "toLowerCase s = s"
proof -
  have "\<not> (CHR ''A'' \<le> c \<and> c \<le> CHR ''Z'')" if "c \<in> set s" for c
  proof -
    from assms that have "c \<in> set ''0123456789abcdefx''" by (rule subsetD)
    with not_upper_hex show ?thesis by (rule bspec)
  qed
  then show ?thesis
    unfolding toLowerCase_def by (intro map_idI) auto
qed

lemma hex_chars_subset:
  "set ''0x'' \<subseteq> set ''0123456789abcdefx''"
  "set ''0123456789abcdef'' \<subseteq> set ''0123456789abcdefx''"
  by code_simp+

lemma toLowerCase_commitment:
  assumes "hex_digest env"
  shows "toLowerCase (CHR ''0'' # CHR ''x'' # keccak256 env m) =
    CHR ''0'' # CHR ''x'' # keccak256 env m"
proof -
  have "set (keccak256 env m) \<subseteq> set ''0123456789abcdef''"
    using assms by (simp add: hex_digest_def)
  with hex_chars_subset have "set (''0x'' @ keccak256 env m) \<subseteq> set ''0123456789abcdefx''"
    unfolding set_append by blast
  then have "toLowerCase (''0x'' @ keccak256 env m) = ''0x'' @ keccak256 env m"
    by (rule toLowerCase_hex)
  then show ?thesis by simp
qed

lemma generateCommitment_nonce:
  "n \<noteq> [] \<Longrightarrow>
   generateCommitment env P (Some n) g =
     (\<lparr>commitment = ''0x'' @ keccak256 env (String_of (stringify env P) @ n), nonce = n\<rparr>, g)"
  by (simp add: generateCommitment_def)

text \<open>
  Claim C6, as amended. For a nonce that is not the empty string,
  \<^verbatim>\<open>verifyCommitment\<close> accepts the commitment \<^verbatim>\<open>generateCommitment\<close> made of the same
  payload and nonce; and it rejects it for another payload \<open>P'\<close>, provided the
  two payloads have different JSON texts, the digests are hex and keccak256
  does not collide on the two hashed strings.
\<close>

theorem verifyCommitment_nonempty_nonce:
  assumes "n \<noteq> []"
  shows "fst (verifyCommitment env P n
              (commitment (fst (generateCommitment env P (Some n) g))) g')
    \<and> (hex_digest env \<and> P' \<noteq> P
         \<and> inj_on (\<lambda>p. String_of (stringify env p)) {P, P'}
         \<and> inj_on (keccak256 env)
              {String_of (stringify env P) @ n, String_of (stringify env P') @ n}
       \<longrightarrow> \<not> fst (verifyCommitment env P' n
              (commitment (fst (generateCommitment env P (Some n) g))) g'))"
proof (intro conjI impI)
  show "fst (verifyCommitment env P n
              (commitment (fst (generateCommitment env P (Some n) g))) g')"
    using assms by (simp add: verifyCommitment_def generateCommitment_nonce)
next
  assume h: "hex_digest env \<and> P' \<noteq> P
         \<and> inj_on (\<lambda>p. String_of (stringify env p)) {P, P'}
         \<and> inj_on (keccak256 env)
              {String_of (stringify env P) @ n, String_of (stringify env P') @ n}"
  then have "String_of (stringify env P') \<noteq> String_of (stringify env P)"
    by (auto simp: inj_on_def)
  then have "String_of (stringify env P') @ n \<noteq> String_of (stringify env P) @ n"
    by simp
  with h have "keccak256 env (String_of (stringify env P') @ n) \<noteq>
      keccak256 env (String_of (stringify env P) @ n)"
    by (auto simp: inj_on_def)
  with h assms show "\<not> fst (verifyCommitment env P' n
              (commitment (fst (generateCommitment env P (Some n) g))) g')"
    by (simp add: verifyCommitment_def generateCommitment_nonce toLowerCase_commitment)
qed

theorem verifyCommitment_nonempty_nonce_witness:
  "fst (verifyCommitment demo_platform acme ''n1''
          (commitment (fst (generateCommitment demo_platform acme (Some ''n1'') 3))) 4)
   \<and> \<not> fst (verifyCommitment demo_platform acme_tampered ''n1''
          (commitment (fst (generateCommitment demo_platform acme (Some ''n1'') 3))) 4)"
proof -
  have n: "''n1'' \<noteq> []" by simp
  have ne: "acme_tampered \<noteq> acme" by (simp add: acme_def acme_tampered_def)
  have i1: "inj_on (\<lambda>p. String_of (stringify demo_platform p)) {acme, acme_tampered}"
    unfolding inj_on_def by code_simp
  have i2: "inj_on (keccak256 demo_platform)
      {String_of (stringify demo_platform acme) @ ''n1'',
       String_of (stringify demo_platform acme_tampered) @ ''n1''}"
    unfolding inj_on_def by code_simp
  from verifyCommitment_nonempty_nonce [OF n, of demo_platform acme 3 4 acme_tampered]
    hex_digest_demo ne i1 i2
  show ?thesis by blast
qed

text \<open>
  Claim C6, as stated, fails for the empty nonce: \<^verbatim>\<open>generateCommitment\<close> takes it
  for a missing one and draws a fresh nonce, at the commitment and again at
  the verification, so the recomputed commitment is another one.
\<close>

theorem verifyCommitment_empty_nonce_counterexample:
  "\<not> fst (verifyCommitment demo_platform acme ''''
          (commitment (fst (generateCommitment demo_platform acme (Some '''') 3))) 4)"
  by code_simp

section \<open>Signatures: theorems\<close>



text \<open>
  \<^verbatim>\<open>verifySignature\<close> never throws: a public key elliptic refuses, or a
  signature it cannot read, gives false.
\<close>

lemma verifySignature_malformed:
  "ec_keyFromPublic env pub = Inl e \<Longrightarrow> \<not> verifySignature env m s pub"
  "ec_keyFromPublic env pub = Inr key \<Longrightarrow> kp_verify env key (keccak256 env m) s = Inl e \<Longrightarrow>
     \<not> verifySignature env m s pub"
  by (simp_all add: verifySignature_def)

section \<open>Envelopes: theorems\<close>

subsection \<open>Opening an envelope never throws\<close>

lemma unwrap_typed_secret:
  "unwrap_typed env ephemeralPub encryptedDek ivHex tagHex priv =
     and_then (recipient_secret env priv ephemeralPub) (\<lambda>sharedSecret.
     and_then (decryptWithAES env encryptedDek (sha256 env sharedSecret) ivHex tagHex)
       (\<lambda>dekHex. Inr (Buffer_from_hex dekHex)))"
  by (simp add: unwrap_typed_def recipient_secret_def and_then_assoc)

lemma decryptDEK_wrapped_key:
  assumes "JSON_parse env w = Inr (wrapped_key ephemeralPub ct ivHex tagHex)"
  shows "decryptDEKWithPrivateKey env w priv = unwrap_typed env ephemeralPub ct ivHex tagHex priv"
  by (simp add: decryptDEKWithPrivateKey_def assms wrapped_key_def)

text \<open>
  The failures the unwrapping of the DEK can meet: a wrapped key that does not
  parse, a private key elliptic refuses, an authentication tag that does not
  verify.
\<close>

lemma decryptDEK_failures:
  "JSON_parse env w = Inl e \<Longrightarrow> decryptDEKWithPrivateKey env w priv = Inl e"
  "JSON_parse env w = Inr (wrapped_key ephemeralPub ct ivHex tagHex) \<Longrightarrow>
     ec_keyFromPrivate env priv = Inl e \<Longrightarrow> decryptDEKWithPrivateKey env w priv = Inl e"
  "JSON_parse env w = Inr (wrapped_key ephemeralPub ct ivHex tagHex) \<Longrightarrow>
     recipient_secret env priv ephemeralPub = Inr secret \<Longrightarrow>
     decryptWithAES env ct (sha256 env secret) ivHex tagHex = Inl e \<Longrightarrow>
     decryptDEKWithPrivateKey env w priv = Inl e"
proof -
  show "JSON_parse env w = Inl e \<Longrightarrow> decryptDEKWithPrivateKey env w priv = Inl e"
    by (simp add: decryptDEKWithPrivateKey_def)
  show "JSON_parse env w = Inr (wrapped_key ephemeralPub ct ivHex tagHex) \<Longrightarrow>
     ec_keyFromPrivate env priv = Inl e \<Longrightarrow> decryptDEKWithPrivateKey env w priv = Inl e"
    by (simp add: decryptDEK_wrapped_key unwrap_typed_def)
  show "JSON_parse env w = Inr (wrapped_key ephemeralPub ct ivHex tagHex) \<Longrightarrow>
     recipient_secret env priv ephemeralPub = Inr secret \<Longrightarrow>
     decryptWithAES env ct (sha256 env secret) ivHex tagHex = Inl e \<Longrightarrow>
     decryptDEKWithPrivateKey env w priv = Inl e"
    by (simp add: decryptDEK_wrapped_key unwrap_typed_secret)
qed

text \<open>
  And how each failure comes out of \<^verbatim>\<open>decryptEnvelope\<close>, for an envelope that has
  an entry for the key: at the unwrapping, at the decryption of the payload,
  at the parsing of the decrypted text.
\<close>

lemma decryptEnvelope_failures:
  assumes "map_of (encryptedKeys envelope) (hashPublicKey env pubKey) = Some w" and "w \<noteq> []"
  shows
    "decryptDEKWithPrivateKey env w privKey = Inl e \<Longrightarrow>
       decryptEnvelope env envelope privKey pubKey =
         \<lparr>success = False, data = None, error = Some (error_message e)\<rparr>"
    "decryptDEKWithPrivateKey env w privKey = Inr dek \<Longrightarrow>
       decryptWithAES env (encryptedData envelope) dek (iv envelope) (authTag envelope) = Inl e \<Longrightarrow>
       decryptEnvelope env envelope privKey pubKey =
         \<lparr>success = False, data = None, error = Some (error_message e)\<rparr>"
    "decryptDEKWithPrivateKey env w privKey = Inr dek \<Longrightarrow>
       decryptWithAES env (encryptedData envelope) dek (iv envelope) (authTag envelope) = Inr text \<Longrightarrow>
       JSON_parse env text = Inl e \<Longrightarrow>
       decryptEnvelope env envelope privKey pubKey =
         \<lparr>success = False, data = None, error = Some (error_message e)\<rparr>"
  using assms by (simp_all add: decryptEnvelope_def decryptEnvelope_try_def)

lemma decryptEnvelope_try_result:
  assumes "decryptEnvelope_try env envelope privKey pubKey = Inr r"
  shows "r = not_authorized \<or> (\<exists>v. r = \<lparr>success = True, data = Some v, error = None\<rparr>)"
  using assms
  by (auto simp: decryptEnvelope_try_def and_then_def split: option.splits if_splits sum.splits)

text \<open>
  Claim C9. Whatever the envelope and the keys, \<^verbatim>\<open>decryptEnvelope\<close> returns a
  \<^verbatim>\<open>DecryptionResult\<close>: either a success with the parsed data, or a failure with an
  error message and no data; and whenever anything inside its \<^verbatim>\<open>try\<close> block
  throws (a malformed key, a wrapped key that does not parse, a failed
  authentication tag at either stage), the result is the failure that carries
  the message of what was thrown.
\<close>

theorem decryptEnvelope_total:
  "((\<exists>v. decryptEnvelope env envelope privKey pubKey =
           \<lparr>success = True, data = Some v, error = None\<rparr>)
     \<or> (\<exists>msg. decryptEnvelope env envelope privKey pubKey =
           \<lparr>success = False, data = None, error = Some msg\<rparr>))
   \<and> (\<forall>e. decryptEnvelope_try env envelope privKey pubKey = Inl e \<longrightarrow>
          decryptEnvelope env envelope privKey pubKey =
            \<lparr>success = False, data = None, error = Some (error_message e)\<rparr>)"
proof (cases "decryptEnvelope_try env envelope privKey pubKey")
  case (Inl e)
  then show ?thesis
    by (simp add: decryptEnvelope_def)
next
  case (Inr r)
  from decryptEnvelope_try_result [OF Inr] Inr show ?thesis
    by (auto simp: decryptEnvelope_def not_authorized_def)
qed

theorem decryptEnvelope_total_witness:
  "decryptEnvelope_try demo_platform
      \<lparr>encryptedData = ''00'', iv = ''00'', authTag = ''00'',
       encryptedKeys = [(hashPublicKey demo_platform ''04aa'', ''not json'')]\<rparr> ''aa40'' ''04aa''
     = Inl (Error ''Unexpected token'')
   \<and> decryptEnvelope demo_platform
      \<lparr>encryptedData = ''00'', iv = ''00'', authTag = ''00'',
       encryptedKeys = [(hashPublicKey demo_platform ''04aa'', ''not json'')]\<rparr> ''aa40'' ''04aa''
     = \<lparr>success = False, data = None, error = Some ''Unexpected token''\<rparr>"
proof -
  let ?envelope = "\<lparr>encryptedData = ''00'', iv = ''00'', authTag = ''00'',
       encryptedKeys = [(hashPublicKey demo_platform ''04aa'', ''not json'')]\<rparr>"
  have t: "decryptEnvelope_try demo_platform ?envelope ''aa40'' ''04aa''
      = Inl (Error ''Unexpected token'')"
    by code_simp
  from decryptEnvelope_total [of demo_platform ?envelope "''aa40''" "''04aa''"]
  have "\<forall>e. decryptEnvelope_try demo_platform ?envelope ''aa40'' ''04aa'' = Inl e \<longrightarrow>
          decryptEnvelope demo_platform ?envelope ''aa40'' ''04aa'' =
            \<lparr>success = False, data = None, error = Some (error_message e)\<rparr>"
    by (rule conjunct2)
  with t have "decryptEnvelope demo_platform ?envelope ''aa40'' ''04aa'' =
      \<lparr>success = False, data = None,
       error = Some (error_message (Error ''Unexpected token''))\<rparr>"
    by blast
  with t show ?thesis by simp
qed

subsection \<open>The recipients of an envelope\<close>

lemma encrypt_for_parties_keys:
  "encrypt_for_parties env dek K keys g = Inr (keys', g') \<Longrightarrow>
   fst ` set keys' = fst ` set keys \<union> hashPublicKey env ` set K"
proof (induction K arbitrary: keys g)
  case Nil
  then show ?case by simp
next
  case (Cons pubKey K)
  from Cons.prems obtain wrapped g1 where
    rest: "encrypt_for_parties env dek K
        (AList.update (hashPublicKey env pubKey) wrapped keys) g1 = Inr (keys', g')"
    by (auto simp: and_then_eq_Inr)
  from Cons.IH [OF rest] show ?case
    by (simp add: dom_update)
qed

lemma createEncryptedEnvelope_keys:
  assumes "createEncryptedEnvelope env P K g = Inr (e, g')"
  shows "fst ` set (encryptedKeys e) = hashPublicKey env ` set K"
proof -
  obtain dek g1 where d: "generateDEK env g = (dek, g1)"
    by (cases "generateDEK env g")
  from assms d obtain g2 keys where
    k: "encrypt_for_parties env dek K [] g2 = Inr (keys, g')" and e: "encryptedKeys e = keys"
    by (auto simp: createEncryptedEnvelope_def and_then_eq_Inr)
  from encrypt_for_parties_keys [OF k] e show ?thesis by simp
qed

text \<open>
  Claim C4. A key pair whose public key is not among the recipients of an
  envelope, so that its fingerprint is none of theirs (fingerprints identify
  keys: a recipient with the fingerprint of \<open>xpub\<close> would be \<open>xpub\<close>), is refused
  with the message that it is not authorized, and gets no data, whatever its
  private key.
\<close>

theorem decryptEnvelope_not_authorized:
  assumes "createEncryptedEnvelope env P K g = Inr (e, g')"
    and "xpub \<notin> set K"
    and "\<forall>pub \<in> set K. hashPublicKey env pub = hashPublicKey env xpub \<longrightarrow> pub = xpub"
  shows "decryptEnvelope env e xpriv xpub =
    \<lparr>success = False, data = None, error = Some ''Not authorized to decrypt this data''\<rparr>"
proof -
  from assms(2,3) have "hashPublicKey env xpub \<notin> hashPublicKey env ` set K"
    by auto
  with createEncryptedEnvelope_keys [OF assms(1)]
  have "hashPublicKey env xpub \<notin> fst ` set (encryptedKeys e)"
    by simp
  then have "map_of (encryptedKeys e) (hashPublicKey env xpub) = None"
    by (simp add: map_of_eq_None_iff)
  then show ?thesis
    by (simp add: decryptEnvelope_def decryptEnvelope_try_def not_authorized_def)
qed

theorem decryptEnvelope_not_authorized_witness:
  "\<exists>e g'. createEncryptedEnvelope demo_platform acme [''04aa'', ''04bb''] 7 = Inr (e, g')
     \<and> decryptEnvelope demo_platform e ''cc40'' ''04cc'' =
       \<lparr>success = False, data = None, error = Some ''Not authorized to decrypt this data''\<rparr>"
proof -
  have "\<not> isl (createEncryptedEnvelope demo_platform acme [''04aa'', ''04bb''] 7)"
    by code_simp
  then obtain e g' where
    c: "createEncryptedEnvelope demo_platform acme [''04aa'', ''04bb''] 7 = Inr (e, g')"
    by (cases "createEncryptedEnvelope demo_platform acme [''04aa'', ''04bb''] 7") auto
  have x: "''04cc'' \<notin> set [''04aa'', ''04bb'']"
    by simp
  have i: "\<forall>pub \<in> set [''04aa'', ''04bb''].
      hashPublicKey demo_platform pub = hashPublicKey demo_platform ''04cc'' \<longrightarrow> pub = ''04cc''"
    by code_simp
  from decryptEnvelope_not_authorized [OF c x i, of "''cc40''"] c show ?thesis
    by blast
qed

subsection \<open>An envelope without recipients\<close>

lemma encryptWithAES_roundtrip:
  assumes "random_lengths env" and "cipher_correct env" and "length key = 32"
  shows "\<exists>ct ivHex tagHex g'.
    encryptWithAES env (Some text) key g = Inr ((ct, ivHex, tagHex), g') \<and>
    decryptWithAES env ct key ivHex tagHex = Inr text"
proof -
  obtain ivBuf g' where r: "randomBytes env 12 g = (ivBuf, g')"
    by (cases "randomBytes env 12 g")
  with assms(1) have "length ivBuf = 12"
    unfolding random_lengths_def by (metis fst_conv)
  with assms(2,3) obtain ct tag where
    e: "gcm_encrypt env key ivBuf text = Inr (ct, tag)" and
    d: "gcm_decrypt env key ivBuf tag ct = Inr text"
    unfolding cipher_correct_def by blast
  have "encryptWithAES env (Some text) key g =
      Inr ((ct, toString_hex ivBuf, toString_hex tag), g')"
    by (simp add: encryptWithAES_def r e)
  moreover have "decryptWithAES env ct key (toString_hex ivBuf) (toString_hex tag) = Inr text"
    by (simp add: decryptWithAES_def d)
  ultimately show ?thesis by blast
qed

text \<open>
  Claim C2, as amended. With no recipients \<^verbatim>\<open>createEncryptedEnvelope\<close> does not
  fail: for a payload that has a JSON text it returns a completed envelope
  whose map of wrapped keys is empty, which no key opens.
\<close>

theorem createEncryptedEnvelope_no_recipients:
  assumes "random_lengths env" and "cipher_correct env" and "P \<noteq> JUndefined"
  shows "\<exists>e g'. createEncryptedEnvelope env P [] g = Inr (e, g') \<and> encryptedKeys e = []
    \<and> (\<forall>priv pub. decryptEnvelope env e priv pub = not_authorized)"
proof -
  obtain dek g1 where d: "generateDEK env g = (dek, g1)"
    by (cases "generateDEK env g")
  with assms(1) have "length dek = 32"
    unfolding random_lengths_def generateDEK_def by (metis fst_conv)
  from encryptWithAES_roundtrip [OF assms(1,2) this, of "JSON_stringify env P" g1]
  obtain ct ivHex tagHex g2 where
    e: "encryptWithAES env (Some (JSON_stringify env P)) dek g1 = Inr ((ct, ivHex, tagHex), g2)"
    by blast
  let ?e = "\<lparr>encryptedData = ct, iv = ivHex, authTag = tagHex, encryptedKeys = []\<rparr>"
  have "createEncryptedEnvelope env P [] g = Inr (?e, g2)"
    using assms(3) by (simp add: createEncryptedEnvelope_def d stringify_def e)
  moreover have "decryptEnvelope env ?e priv pub = not_authorized" for priv pub
    by (simp add: decryptEnvelope_def decryptEnvelope_try_def)
  ultimately show ?thesis by simp
qed

theorem createEncryptedEnvelope_no_recipients_witness:
  "\<exists>e g'. createEncryptedEnvelope demo_platform acme [] 7 = Inr (e, g') \<and> encryptedKeys e = []
    \<and> (\<forall>priv pub. decryptEnvelope demo_platform e priv pub = not_authorized)"
proof -
  have "acme \<noteq> JUndefined" by (simp add: acme_def)
  then show ?thesis
    by (rule createEncryptedEnvelope_no_recipients [OF random_lengths_demo cipher_correct_demo])
qed

text \<open>
  Claim C2, as stated, fails: for the payload of the example and no recipient,
  \<^verbatim>\<open>createEncryptedEnvelope\<close> returns this envelope.
\<close>

theorem createEncryptedEnvelope_no_recipients_counterexample:
  "createEncryptedEnvelope demo_platform acme [] 7 =
     Inr (\<lparr>encryptedData = ''7b616d6f756e743a3530303030302c62757965723a41636d657d'',
           iv = ''080808080808080808080808'',
           authTag = ''07070707070707070707070707070707'',
           encryptedKeys = []\<rparr>, 9)"
  by code_simp

subsection \<open>Creating and opening\<close>

text \<open>Both sides of the key wrapping, in terms of the shared secret.\<close>

lemma encryptDEKForParty_secret:
  "encryptDEKForParty env dek pub None g =
     (case ec_genKeyPair env g of (ephemeral, g1) \<Rightarrow>
        and_then (sender_secret env ephemeral pub) (\<lambda>sharedSecret.
        and_then (encryptWithAES env (Some (toString_hex dek)) (sha256 env sharedSecret) g1)
          (\<lambda>((ct, ivHex, tagHex), g2).
        and_then (kp_getPublic_hex env ephemeral) (\<lambda>ephemeralPub.
          Inr (JSON_stringify env (wrapped_key ephemeralPub ct ivHex tagHex), g2)))))"
  by (simp add: encryptDEKForParty_def ephemeral_key_def sender_secret_def and_then_assoc
      split: prod.splits)

lemma wrap_usable:
  assumes "random_lengths env" and "cipher_correct env" and "sha256_length env"
    and "usable_public_key env pub"
  shows "\<exists>w g'. encryptDEKForParty env dek pub None g = Inr (w, g')"
proof -
  obtain ephemeral g1 where k: "ec_genKeyPair env g = (ephemeral, g1)"
    by (cases "ec_genKeyPair env g")
  from assms(4) obtain secret ephemeralPub where
    s: "sender_secret env (fst (ec_genKeyPair env g)) pub = Inr secret" and
    p: "kp_getPublic_hex env (fst (ec_genKeyPair env g)) = Inr ephemeralPub"
    unfolding usable_public_key_def by blast
  have "length (sha256 env secret) = 32"
    using assms(3) by (simp add: sha256_length_def)
  from encryptWithAES_roundtrip [OF assms(1,2) this, of "toString_hex dek" g1]
  obtain ct ivHex tagHex g2 where
    e: "encryptWithAES env (Some (toString_hex dek)) (sha256 env secret) g1 =
        Inr ((ct, ivHex, tagHex), g2)"
    by blast
  from s p have "encryptDEKForParty env dek pub None g =
      Inr (JSON_stringify env (wrapped_key ephemeralPub ct ivHex tagHex), g2)"
    by (simp add: encryptDEKForParty_secret k e)
  then show ?thesis by blast
qed

lemma wrap_unwrap:
  assumes "random_lengths env" and "cipher_correct env" and "sha256_length env"
    and "json_wrapped_roundtrip env" and "ecdh_key_pair env priv pub"
  shows "\<exists>w g'. encryptDEKForParty env dek pub None g = Inr (w, g') \<and> w \<noteq> [] \<and>
    decryptDEKWithPrivateKey env w priv = Inr dek"
proof -
  obtain ephemeral g1 where k: "ec_genKeyPair env g = (ephemeral, g1)"
    by (cases "ec_genKeyPair env g")
  from assms(5) obtain secret ephemeralPub where
    s: "sender_secret env (fst (ec_genKeyPair env g)) pub = Inr secret" and
    p: "kp_getPublic_hex env (fst (ec_genKeyPair env g)) = Inr ephemeralPub" and
    r: "recipient_secret env priv ephemeralPub = Inr secret"
    unfolding ecdh_key_pair_def by blast
  have "length (sha256 env secret) = 32"
    using assms(3) by (simp add: sha256_length_def)
  from encryptWithAES_roundtrip [OF assms(1,2) this, of "toString_hex dek" g1]
  obtain ct ivHex tagHex g2 where
    e: "encryptWithAES env (Some (toString_hex dek)) (sha256 env secret) g1 =
        Inr ((ct, ivHex, tagHex), g2)" and
    d: "decryptWithAES env ct (sha256 env secret) ivHex tagHex = Inr (toString_hex dek)"
    by blast
  let ?w = "JSON_stringify env (wrapped_key ephemeralPub ct ivHex tagHex)"
  from assms(4) have j: "JSON_parse env ?w = Inr (wrapped_key ephemeralPub ct ivHex tagHex)"
    and ne: "?w \<noteq> []"
    by (simp_all add: json_wrapped_roundtrip_def json_roundtrip_def)
  from s p have "encryptDEKForParty env dek pub None g = Inr (?w, g2)"
    by (simp add: encryptDEKForParty_secret k e)
  moreover have "decryptDEKWithPrivateKey env ?w priv = Inr dek"
    by (simp add: decryptDEK_wrapped_key [OF j] unwrap_typed_secret r d)
  ultimately show ?thesis using ne by blast
qed

text \<open>
  The loop over the recipients, seen from one fingerprint \<open>h\<close>: if every
  recipient with that fingerprint is a key of \<open>priv\<close>, the entry the loop leaves
  under \<open>h\<close> is one that \<open>priv\<close> unwraps to the DEK.
\<close>

lemma encrypt_for_parties_opens:
  assumes "random_lengths env" and "cipher_correct env" and "sha256_length env"
    and "json_wrapped_roundtrip env"
  shows "\<forall>pub \<in> set K. usable_public_key env pub \<Longrightarrow>
    \<forall>pub \<in> set K. hashPublicKey env pub = h \<longrightarrow> ecdh_key_pair env priv pub \<Longrightarrow>
    opens env priv dek (map_of keys h) \<or> h \<in> hashPublicKey env ` set K \<Longrightarrow>
    \<exists>keys' g'. encrypt_for_parties env dek K keys g = Inr (keys', g') \<and>
      opens env priv dek (map_of keys' h)"
proof (induction K arbitrary: keys g)
  case Nil
  then show ?case by simp
next
  case (Cons pubKey K)
  have "\<exists>w g1. encryptDEKForParty env dek pubKey None g = Inr (w, g1) \<and>
      (hashPublicKey env pubKey = h \<longrightarrow> opens env priv dek (Some w))"
  proof (cases "hashPublicKey env pubKey = h")
    case True
    with Cons.prems(2) have "ecdh_key_pair env priv pubKey" by simp
    from wrap_unwrap [OF assms this, of dek g] show ?thesis
      by (auto simp: opens_def)
  next
    case False
    from Cons.prems(1) have "usable_public_key env pubKey" by simp
    from wrap_usable [OF assms(1,2,3) this, of dek g] False show ?thesis
      by auto
  qed
  then obtain w g1 where
    w: "encryptDEKForParty env dek pubKey None g = Inr (w, g1)" and
    o: "hashPublicKey env pubKey = h \<longrightarrow> opens env priv dek (Some w)"
    by blast
  let ?keys = "AList.update (hashPublicKey env pubKey) w keys"
  have "opens env priv dek (map_of ?keys h) \<or> h \<in> hashPublicKey env ` set K"
    using Cons.prems(3) o by (auto simp: update_conv')
  moreover from Cons.prems(1) have "\<forall>pub \<in> set K. usable_public_key env pub" by simp
  moreover from Cons.prems(2)
  have "\<forall>pub \<in> set K. hashPublicKey env pub = h \<longrightarrow> ecdh_key_pair env priv pub" by simp
  ultimately obtain keys' g' where
    "encrypt_for_parties env dek K ?keys g1 = Inr (keys', g')"
    "opens env priv dek (map_of keys' h)"
    using Cons.IH [of ?keys g1] by blast
  with w show ?case by simp
qed

text \<open>
  Claim C1, as amended. The payload is one that JSON represents exactly: it is
  not \<^verbatim>\<open>undefined\<close>, and \<^verbatim>\<open>JSON.parse\<close> returns it from the text
  \<^verbatim>\<open>JSON.stringify\<close> writes for it. With libraries that keep their contracts
  (random bytes of the requested length, a correct AES-GCM, 32-byte SHA-256
  digests, wrapped keys that parse back), recipients whose public keys are
  usable, and a key pair \<open>priv\<close>, \<open>pub\<close> among them:
  \<^verbatim>\<open>createEncryptedEnvelope\<close> returns an envelope, and \<^verbatim>\<open>decryptEnvelope\<close> with the
  key pair succeeds on it and returns the payload. Fingerprints are taken to
  identify keys: a recipient with the fingerprint of \<open>pub\<close> is a public key of
  \<open>priv\<close> too.
\<close>

theorem envelope_roundtrip:
  assumes "random_lengths env" and "cipher_correct env" and "sha256_length env"
    and "json_wrapped_roundtrip env"
    and "json_roundtrip env P" and "P \<noteq> JUndefined"
    and "\<forall>pub' \<in> set K. usable_public_key env pub'"
    and "pub \<in> set K" and "ecdh_key_pair env priv pub"
    and "\<forall>pub' \<in> set K. hashPublicKey env pub' = hashPublicKey env pub \<longrightarrow>
           ecdh_key_pair env priv pub'"
  shows "\<exists>e g'. createEncryptedEnvelope env P K g = Inr (e, g') \<and>
    decryptEnvelope env e priv pub = \<lparr>success = True, data = Some P, error = None\<rparr>"
proof -
  obtain dek g1 where d: "generateDEK env g = (dek, g1)"
    by (cases "generateDEK env g")
  with assms(1) have "length dek = 32"
    unfolding random_lengths_def generateDEK_def by (metis fst_conv)
  from encryptWithAES_roundtrip [OF assms(1,2) this, of "JSON_stringify env P" g1]
  obtain ct ivHex tagHex g2 where
    enc: "encryptWithAES env (Some (JSON_stringify env P)) dek g1 =
        Inr ((ct, ivHex, tagHex), g2)" and
    dec: "decryptWithAES env ct dek ivHex tagHex = Inr (JSON_stringify env P)"
    by blast
  have "opens env priv dek (map_of [] (hashPublicKey env pub)) \<or>
      hashPublicKey env pub \<in> hashPublicKey env ` set K"
    using assms(8) by simp
  from encrypt_for_parties_opens [OF assms(1,2,3,4) assms(7) assms(10) this, of g2]
  obtain keys g' where
    loop: "encrypt_for_parties env dek K [] g2 = Inr (keys, g')" and
    o: "opens env priv dek (map_of keys (hashPublicKey env pub))"
    by blast
  from o obtain w where
    w: "map_of keys (hashPublicKey env pub) = Some w" "w \<noteq> []"
      "decryptDEKWithPrivateKey env w priv = Inr dek"
    by (auto simp: opens_def split: option.splits)
  let ?e = "\<lparr>encryptedData = ct, iv = ivHex, authTag = tagHex, encryptedKeys = keys\<rparr>"
  have "createEncryptedEnvelope env P K g = Inr (?e, g')"
    using assms(6) by (simp add: createEncryptedEnvelope_def d stringify_def enc loop)
  moreover from assms(5) have "JSON_parse env (JSON_stringify env P) = Inr P"
    by (simp add: json_roundtrip_def)
  then have "decryptEnvelope env ?e priv pub = \<lparr>success = True, data = Some P, error = None\<rparr>"
    by (simp add: decryptEnvelope_def decryptEnvelope_try_def w dec)
  ultimately show ?thesis by blast
qed

theorem envelope_roundtrip_witness:
  "\<exists>e g'. createEncryptedEnvelope demo_platform acme [''04aa'', ''04bb''] 7 = Inr (e, g') \<and>
    decryptEnvelope demo_platform e ''aa40'' ''04aa'' =
      \<lparr>success = True, data = Some acme, error = None\<rparr>"
proof -
  have j: "json_roundtrip demo_platform acme"
    unfolding json_roundtrip_def by code_simp
  have u: "acme \<noteq> JUndefined"
    by (simp add: acme_def)
  have k: "\<forall>pub' \<in> set [''04aa'', ''04bb'']. usable_public_key demo_platform pub'"
    by (simp add: usable_public_key_demo)
  have m: "''04aa'' \<in> set [''04aa'', ''04bb'']"
    by simp
  have p: "ecdh_key_pair demo_platform ''aa40'' ''04aa''"
    using ecdh_key_pair_demo [of "''aa40''"] by simp
  have "hashPublicKey demo_platform ''04bb'' \<noteq> hashPublicKey demo_platform ''04aa''"
    by code_simp
  with p have f: "\<forall>pub' \<in> set [''04aa'', ''04bb''].
      hashPublicKey demo_platform pub' = hashPublicKey demo_platform ''04aa'' \<longrightarrow>
        ecdh_key_pair demo_platform ''aa40'' pub'"
    by simp
  show ?thesis
    by (rule envelope_roundtrip [OF random_lengths_demo cipher_correct_demo sha256_length_demo
          json_wrapped_roundtrip_demo j u k m p f])
qed

text \<open>
  Claim C1, as stated for every payload, fails. For the payload \<^verbatim>\<open>undefined\<close>
  \<^verbatim>\<open>JSON.stringify\<close> returns \<^verbatim>\<open>undefined\<close>, which the cipher refuses:
  \<^verbatim>\<open>createEncryptedEnvelope\<close> throws. And for the payload \<^verbatim>\<open>{a: undefined}\<close>
  the envelope is created and opened, and the payload that comes back is the
  empty object, which is a different value.
\<close>

theorem envelope_roundtrip_counterexample:
  "isl (createEncryptedEnvelope demo_platform JUndefined [''04aa''] 7)
   \<and> (case createEncryptedEnvelope demo_platform (JObj [(''a'', JUndefined)]) [''04aa''] 7 of
         Inl err \<Rightarrow> False
       | Inr (e, g') \<Rightarrow>
           decryptEnvelope demo_platform e ''aa40'' ''04aa'' =
             \<lparr>success = True, data = Some (JObj []), error = None\<rparr>)
   \<and> JObj [] \<noteq> JObj [(''a'', JUndefined)]"
  by code_simp

end
